theory Spec2Isabelle
  imports Main "HOL-Library.Char_ord"
begin

section \<open>Values, errors and the outside world\<close>

text \<open>
  The program \<^verbatim>\<open>scw.py\<close> drives a cloud instance through external programs
  (\<^verbatim>\<open>scw\<close>, \<^verbatim>\<open>ssh\<close>, \<^verbatim>\<open>scp\<close>, \<^verbatim>\<open>ssh-keygen\<close>) and keeps one JSON file.
  The values it handles are the ones \<^verbatim>\<open>json.loads\<close> produces. Floating-point
  numbers are left out: no branch of the program depends on a number.
\<close>

datatype json =
    JNull
  | JBool bool
  | JInt int
  | JStr string
  | JList "json list"
  | JDict "(string \<times> json) list"

text \<open>Python truthiness, as used by \<^verbatim>\<open>if state:\<close>, \<^verbatim>\<open>if ip:\<close>, \<^verbatim>\<open>if server and ...\<close>.\<close>

fun truthy :: "json \<Rightarrow> bool" where
  "truthy JNull = False"
| "truthy (JBool b) = b"
| "truthy (JInt n) = (n \<noteq> 0)"
| "truthy (JStr s) = (s \<noteq> [])"
| "truthy (JList xs) = (xs \<noteq> [])"
| "truthy (JDict kvs) = (kvs \<noteq> [])"

text \<open>
  Every \<^verbatim>\<open>raise\<close> and \<^verbatim>\<open>sys.exit\<close> of the source is a value. \<^verbatim>\<open>SystemExit n\<close> is
  \<^verbatim>\<open>sys.exit(n)\<close>; the others are the exceptions the interpreter raises on a missing
  key, on text that is not JSON, on \<^verbatim>\<open>.get\<close> of a value that is not a dict, and on
  a value of the wrong type.
\<close>

datatype exn =
    SystemExit int
  | KeyError string
  | JSONDecodeError
  | AttributeError
  | TypeError

text \<open>
  How a run ends: it returns, it raises, or it is cut off from outside while it polls.
  The polling loops have no bound of their own (\<^verbatim>\<open>while True\<close>); the only bound is the
  operator, who interrupts the process. The parameter \<open>patience\<close> of the loops below is
  the number of attempts the operator waits for; a loop that would poll forever is
  \<open>Interrupted\<close> for every patience.
\<close>

datatype 'a outcome =
    Returned 'a
  | Raised exn
  | Interrupted

text \<open>
  The exit status of the process: 0 on return, \<open>n\<close> on \<^verbatim>\<open>sys.exit(n)\<close>, 1 on a
  traceback; a process killed by the interrupt has none.
\<close>

fun exit_status :: "unit outcome \<Rightarrow> int option" where
  "exit_status (Returned _) = Some 0"
| "exit_status (Raised (SystemExit n)) = Some n"
| "exit_status (Raised _) = Some 1"
| "exit_status Interrupted = None"

text \<open>\<^verbatim>\<open>d[key]\<close>: only a dict can be indexed by a string.\<close>

fun subscript :: "json \<Rightarrow> string \<Rightarrow> exn + json" where
  "subscript (JDict kvs) k = (case map_of kvs k of None \<Rightarrow> Inl (KeyError k) | Some v \<Rightarrow> Inr v)"
| "subscript _ k = Inl TypeError"

text \<open>\<^verbatim>\<open>d.get(key, default)\<close>: only a dict has \<^verbatim>\<open>.get\<close>.\<close>

fun get_default :: "json \<Rightarrow> string \<Rightarrow> json \<Rightarrow> exn + json" where
  "get_default (JDict kvs) k d = (case map_of kvs k of None \<Rightarrow> Inr d | Some v \<Rightarrow> Inr v)"
| "get_default _ k d = Inl AttributeError"

text \<open>
  \<^verbatim>\<open>for x in v\<close>: a list yields its elements, a dict its keys, a string its characters;
  nothing else can be iterated.
\<close>

fun iter_items :: "json \<Rightarrow> exn + json list" where
  "iter_items (JList xs) = Inr xs"
| "iter_items (JDict kvs) = Inr (map (\<lambda>kv. JStr (fst kv)) kvs)"
| "iter_items (JStr s) = Inr (map (\<lambda>c. JStr [c]) s)"
| "iter_items _ = Inl TypeError"

text \<open>
  The paths the program inspects on the local machine: \<^verbatim>\<open>~/.ssh/known_hosts\<close>, the
  work directory \<^verbatim>\<open>./work\<close>, the path \<^verbatim>\<open>./work/<name>\<close> below it, and a path
  \<^verbatim>\<open><name>\<close> that starts at the root.
\<close>

datatype path =
    KNOWN_HOSTS
  | LOCAL_WORK_DIR
  | Under_work string
  | Rooted string

text \<open>
  \<^verbatim>\<open>LOCAL_WORK_DIR / filename\<close>, the join of \<^verbatim>\<open>pathlib\<close> (on POSIX): an absolute
  right operand replaces the left one, so \<^verbatim>\<open>Path("./work") / "/etc/passwd"\<close> is
  \<^verbatim>\<open>/etc/passwd\<close>; any other operand is appended below \<^verbatim>\<open>./work\<close>.
\<close>

definition is_absolute :: "string \<Rightarrow> bool" where
  "is_absolute filename = (case filename of [] \<Rightarrow> False | c # _ \<Rightarrow> c = CHR ''/'')"

definition LOCAL_WORK_DIR_slash :: "string \<Rightarrow> path" where
  "LOCAL_WORK_DIR_slash filename =
     (if is_absolute filename then Rooted filename else Under_work filename)"

text \<open>
  An f-string is kept as its pieces, so that no \<^verbatim>\<open>str()\<close> of a value has to be
  computed: a literal, an interpolated value, an interpolated path, or an interpolated
  \<^verbatim>\<open>result.stderr\<close> (which is \<^verbatim>\<open>None\<close> when the output was not captured).
\<close>

datatype piece =
    Lit string
  | Val json
  | PathStr path
  | Captured "string option"

text \<open>
  One element of an argument vector: a plain string, a value passed as it is
  (\<^verbatim>\<open>subprocess.run\<close> raises \<^verbatim>\<open>TypeError\<close> unless it is a string), or an f-string.
\<close>

datatype arg =
    S string
  | V json
  | F "piece list"

fun str_arg :: "arg \<Rightarrow> bool" where
  "str_arg (V (JStr s)) = True"
| "str_arg (V _) = False"
| "str_arg _ = True"

fun str_args :: "arg list \<Rightarrow> bool" where
  "str_args [] = True"
| "str_args (a # as) = (str_arg a \<and> str_args as)"

text \<open>
  What an external program answers: exit code, the two output streams, and what
  \<^verbatim>\<open>json.loads\<close> makes of the standard output (\<open>None\<close> when it raises
  \<^verbatim>\<open>JSONDecodeError\<close>).
\<close>

record reply =
  rc :: int
  out :: string
  err :: string
  out_json :: "json option"

text \<open>\<^verbatim>\<open>subprocess.CompletedProcess\<close>: the streams are \<^verbatim>\<open>None\<close> when not captured.\<close>

record proc =
  returncode :: int
  stdout :: "string option"
  stderr :: "string option"
  stdout_json :: "json option"

text \<open>Everything the program does that can be observed from outside.\<close>

datatype event =
    Run "arg list" bool reply
  | RunInterrupted "arg list"
  | Exists path bool
  | IsDir path bool
  | Mkdir path
  | Print "piece list"
  | PrintNoEnd "piece list"
  | Sleep nat

text \<open>
  The state: the content of \<^verbatim>\<open>STATE_FILE\<close> (\<open>None\<close> when the file does not exist)
  and the log of events. Each event is logged with the content of the state file at
  the moment it happens. The file is modelled by the JSON document it holds:
  \<^verbatim>\<open>json.dumps\<close> followed by \<^verbatim>\<open>json.loads\<close> is taken to give the document back, and
  only this program writes the file.
\<close>

type_synonym log = "(event \<times> json option) list"

record world =
  state_file :: "json option"
  trace :: log

text \<open>
  The environment decides every answer from the log so far: the external programs,
  the local file system, and whether the operator interrupts the tunnel.
  \<^verbatim>\<open>subprocess.run\<close> and the \<^verbatim>\<open>Path\<close> operations are taken to return (the programs
  are installed, the file system permits the operation).
\<close>

record env =
  respond :: "log \<Rightarrow> arg list \<Rightarrow> reply"
  fs_exists :: "log \<Rightarrow> path \<Rightarrow> bool"
  fs_is_dir :: "log \<Rightarrow> path \<Rightarrow> bool"
  interrupted :: "log \<Rightarrow> bool"

section \<open>Sequencing\<close>

type_synonym 'a result = "'a outcome \<times> world"

definition emit :: "event \<Rightarrow> world \<Rightarrow> world" where
  "emit e w = w\<lparr>trace := trace w @ [(e, state_file w)]\<rparr>"

definition print :: "piece list \<Rightarrow> world \<Rightarrow> world" where
  "print ps = emit (Print ps)"

definition print_noend :: "piece list \<Rightarrow> world \<Rightarrow> world" where
  "print_noend ps = emit (PrintNoEnd ps)"

definition sleep :: "nat \<Rightarrow> world \<Rightarrow> world" where
  "sleep n = emit (Sleep n)"

definition ret :: "'a \<Rightarrow> world \<Rightarrow> 'a result" where
  "ret x w = (Returned x, w)"

definition raise :: "exn \<Rightarrow> world \<Rightarrow> 'a result" where
  "raise e w = (Raised e, w)"

definition pure :: "exn + 'a \<Rightarrow> world \<Rightarrow> 'a result" where
  "pure r w = (case r of Inl e \<Rightarrow> (Raised e, w) | Inr x \<Rightarrow> (Returned x, w))"

definition act :: "(world \<Rightarrow> world) \<Rightarrow> world \<Rightarrow> unit result" where
  "act f w = (Returned (), f w)"

definition bnd :: "(world \<Rightarrow> 'a result) \<Rightarrow> ('a \<Rightarrow> world \<Rightarrow> 'b result) \<Rightarrow> world \<Rightarrow> 'b result" where
  "bnd m f w =
     (case m w of
        (Returned x, w') \<Rightarrow> f x w'
      | (Raised e, w') \<Rightarrow> (Raised e, w')
      | (Interrupted, w') \<Rightarrow> (Interrupted, w'))"

definition andthen :: "(world \<Rightarrow> unit result) \<Rightarrow> (world \<Rightarrow> 'b result) \<Rightarrow> world \<Rightarrow> 'b result" where
  "andthen m k = bnd m (\<lambda>_. k)"

section \<open>Configuration\<close>

definition ZONE :: string where "ZONE = ''fr-par-2''"
definition INSTANCE_TYPE :: string where "INSTANCE_TYPE = ''H100-1-80G''"
definition IMAGE :: string where "IMAGE = ''ubuntu_noble_gpu_os_12''"
definition JUPYTER_PORT :: string where "JUPYTER_PORT = ''8888''"
definition REMOTE_WORK_DIR :: string where "REMOTE_WORK_DIR = ''/scratch/work''"

definition SSH_OPTS :: "arg list" where
  "SSH_OPTS = [S ''-o'', S ''StrictHostKeyChecking=no'', S ''-o'', S ''UserKnownHostsFile=/dev/null'']"

definition NL :: string where "NL = [CHR 0x0A]"

text \<open>\<^verbatim>\<open>REMOTE_SETUP_SCRIPT\<close>, with \<^verbatim>\<open>venv_name\<close> and \<^verbatim>\<open>port\<close> filled in by \<^verbatim>\<open>format\<close>.\<close>

definition REMOTE_SETUP_SCRIPT :: string where
  \<open>REMOTE_SETUP_SCRIPT = concat (map (\<lambda>l. l @ NL)
    ['''',
     ''set -e'',
     ''apt update -y'',
     ''apt upgrade -y'',
     ''apt install -y python3.12-venv jupyter-notebook'',
     '''',
     ''cd /scratch'',
     ''python3 -m venv gpu_venv'',
     ''source gpu_venv/bin/activate'',
     ''pip install --upgrade pip'',
     ''pip install jupyterlab ipykernel'',
     ''python3 -m ipykernel install --user --name=gpu_venv --display-name "Python (gpu_venv)"'',
     ''setsid jupyter notebook --no-browser --port=8888 --allow-root --ip=0.0.0.0 --notebook-dir=/scratch > /tmp/jupyter.log 2>&1 < /dev/null &'',
     ''sleep 5'',
     ''cat /tmp/jupyter.log''])\<close>

section \<open>Running external programs\<close>

text \<open>
  \<^verbatim>\<open>run\<close>: \<^verbatim>\<open>subprocess.run(cmd, capture_output=capture, text=True)\<close>. The
  environment answers; the call and its answer are logged.
\<close>

definition run :: "env \<Rightarrow> arg list \<Rightarrow> bool \<Rightarrow> world \<Rightarrow> proc result" where
  "run env cmd capture w =
     (if \<not> str_args cmd then (Raised TypeError, w)
      else let r = respond env (trace w) cmd in
        (Returned \<lparr>returncode = rc r,
              stdout = (if capture then Some (out r) else None),
              stderr = (if capture then Some (err r) else None),
              stdout_json = (if capture then out_json r else None)\<rparr>,
         emit (Run cmd capture r) w))"

definition scw :: "env \<Rightarrow> arg list \<Rightarrow> world \<Rightarrow> proc result" where
  "scw env args = run env (S ''scw'' # args) True"

definition ssh_run :: "env \<Rightarrow> json \<Rightarrow> string \<Rightarrow> world \<Rightarrow> proc result" where
  "ssh_run env ip command =
     run env ([S ''ssh''] @ SSH_OPTS @ [F [Lit ''root@'', Val ip], S command]) True"

definition scp_to_instance ::
    "env \<Rightarrow> piece list \<Rightarrow> string \<Rightarrow> json \<Rightarrow> bool \<Rightarrow> world \<Rightarrow> proc result" where
  "scp_to_instance env local_path remote_path instance_ip recursive =
     run env ([S ''scp''] @ SSH_OPTS @ (if recursive then [S ''-r''] else [])
              @ [F local_path, F [Lit ''root@'', Val instance_ip, Lit '':'', Lit remote_path]])
         False"

definition scp_from_instance ::
    "env \<Rightarrow> string \<Rightarrow> piece list \<Rightarrow> json \<Rightarrow> bool \<Rightarrow> world \<Rightarrow> proc result" where
  "scp_from_instance env remote_path local_path instance_ip recursive =
     run env ([S ''scp''] @ SSH_OPTS @ (if recursive then [S ''-r''] else [])
              @ [F [Lit ''root@'', Val instance_ip, Lit '':'', Lit remote_path], F local_path])
         False"

text \<open>\<^verbatim>\<open>json.loads(result.stdout)\<close>.\<close>

definition json_loads :: "proc \<Rightarrow> exn + json" where
  "json_loads p =
     (case stdout p of
        None \<Rightarrow> Inl TypeError
      | Some _ \<Rightarrow> (case stdout_json p of None \<Rightarrow> Inl JSONDecodeError | Some j \<Rightarrow> Inr j))"

text \<open>\<^verbatim>\<open>needle in result.stdout\<close>.\<close>

fun starts_with :: "string \<Rightarrow> string \<Rightarrow> bool" where
  "starts_with s p = (take (length p) s = p)"

fun contains :: "string \<Rightarrow> string \<Rightarrow> bool" where
  "contains [] p = (p = [])"
| "contains (c # cs) p = (starts_with (c # cs) p \<or> contains cs p)"

definition in_stdout :: "string \<Rightarrow> proc \<Rightarrow> exn + bool" where
  "in_stdout needle p =
     (case stdout p of None \<Rightarrow> Inl TypeError | Some s \<Rightarrow> Inr (contains s needle))"

text \<open>The local file system.\<close>

definition path_exists :: "env \<Rightarrow> path \<Rightarrow> world \<Rightarrow> bool result" where
  "path_exists env p w = (let b = fs_exists env (trace w) p in (Returned b, emit (Exists p b) w))"

definition path_is_dir :: "env \<Rightarrow> path \<Rightarrow> world \<Rightarrow> bool result" where
  "path_is_dir env p w = (let b = fs_is_dir env (trace w) p in (Returned b, emit (IsDir p b) w))"

definition mkdir :: "path \<Rightarrow> world \<Rightarrow> world" where
  "mkdir p = emit (Mkdir p)"

definition remove_from_known_hosts :: "env \<Rightarrow> json \<Rightarrow> world \<Rightarrow> unit result" where
  "remove_from_known_hosts env ip =
     bnd (path_exists env KNOWN_HOSTS) (\<lambda>ex.
       if ex then
         bnd (run env [S ''ssh-keygen'', S ''-R'', V ip] True) (\<lambda>_.
           act (print [Lit ''Removed '', Val ip, Lit '' from known_hosts'']))
       else ret ())"

section \<open>The persisted state\<close>

definition save_state :: "json \<Rightarrow> json \<Rightarrow> world \<Rightarrow> world" where
  "save_state instance_id instance_ip w =
     w\<lparr>state_file := Some (JDict [(''id'', instance_id), (''ip'', instance_ip)])\<rparr>"

text \<open>Python's \<^verbatim>\<open>None\<close> and JSON's \<^verbatim>\<open>null\<close> are the same value.\<close>

definition load_state :: "world \<Rightarrow> json result" where
  "load_state w = (Returned (case state_file w of None \<Rightarrow> JNull | Some j \<Rightarrow> j), w)"

definition delete_state :: "world \<Rightarrow> world" where
  "delete_state w = w\<lparr>state_file := None\<rparr>"

section \<open>Querying the provider\<close>

definition get_instance_state :: "env \<Rightarrow> json \<Rightarrow> world \<Rightarrow> json result" where
  "get_instance_state env instance_id =
     bnd (scw env [S ''instance'', S ''server'', S ''get'', V instance_id,
                   S (''zone='' @ ZONE), S ''-o'', S ''json'']) (\<lambda>result.
     bnd (pure (json_loads result)) (\<lambda>data.
     pure (get_default data ''state'' (JStr ''''))))"

text \<open>
  The loop over the address list. The comparison \<^verbatim>\<open>server.get("id") == instance_id\<close>
  is equality of values: \<open>instance_id\<close> is a string whenever this is reached, since it
  has been an argument of \<^verbatim>\<open>scw\<close> before.
\<close>

fun find_ip :: "json list \<Rightarrow> json \<Rightarrow> exn + json" where
  "find_ip [] instance_id = Inr JNull"
| "find_ip (ip_info # rest) instance_id =
     (case get_default ip_info ''server'' JNull of
        Inl e \<Rightarrow> Inl e
      | Inr server \<Rightarrow>
          if truthy server then
            (case get_default server ''id'' JNull of
               Inl e \<Rightarrow> Inl e
             | Inr sid \<Rightarrow>
                 if sid = instance_id then get_default ip_info ''address'' JNull
                 else find_ip rest instance_id)
          else find_ip rest instance_id)"

definition get_instance_ip :: "env \<Rightarrow> json \<Rightarrow> world \<Rightarrow> json result" where
  "get_instance_ip env instance_id =
     bnd (scw env [S ''instance'', S ''ip'', S ''list'', S (''zone='' @ ZONE), S ''-o'', S ''json''])
       (\<lambda>result.
         if returncode result \<noteq> 0 then ret JNull
         else
           bnd (pure (json_loads result)) (\<lambda>ips.
           bnd (pure (iter_items ips)) (\<lambda>items.
           pure (find_ip items instance_id))))"

section \<open>The polling loops\<close>

text \<open>
  Each \<^verbatim>\<open>while True\<close> loop recurses on the operator's patience: one attempt per unit.
  The line printed before the loop is in the function of the source's name.
\<close>

primrec wait_for_running_loop :: "nat \<Rightarrow> env \<Rightarrow> json \<Rightarrow> world \<Rightarrow> unit result" where
  "wait_for_running_loop 0 env instance_id = (\<lambda>w. (Interrupted, w))"
| "wait_for_running_loop (Suc patience) env instance_id =
     bnd (get_instance_state env instance_id) (\<lambda>state.
       if state = JStr ''running'' then act (print [Lit '' Ready!''])
       else
         andthen (act (print_noend [Lit ''.'']))
        (andthen (act (sleep 5))
                 (wait_for_running_loop patience env instance_id)))"

definition wait_for_running :: "nat \<Rightarrow> env \<Rightarrow> json \<Rightarrow> world \<Rightarrow> unit result" where
  "wait_for_running patience env instance_id =
     andthen (act (print_noend [Lit ''Waiting for instance to start'']))
             (wait_for_running_loop patience env instance_id)"

primrec wait_for_ip_loop :: "nat \<Rightarrow> env \<Rightarrow> json \<Rightarrow> world \<Rightarrow> json result" where
  "wait_for_ip_loop 0 env instance_id = (\<lambda>w. (Interrupted, w))"
| "wait_for_ip_loop (Suc patience) env instance_id =
     bnd (get_instance_ip env instance_id) (\<lambda>ip.
       if truthy ip then andthen (act (print [Lit '' '', Val ip])) (ret ip)
       else
         andthen (act (print_noend [Lit ''.'']))
        (andthen (act (sleep 5))
                 (wait_for_ip_loop patience env instance_id)))"

definition wait_for_ip :: "nat \<Rightarrow> env \<Rightarrow> json \<Rightarrow> world \<Rightarrow> json result" where
  "wait_for_ip patience env instance_id =
     andthen (act (print_noend [Lit ''Waiting for IP assignment'']))
             (wait_for_ip_loop patience env instance_id)"

primrec wait_for_ssh_loop :: "nat \<Rightarrow> env \<Rightarrow> json \<Rightarrow> world \<Rightarrow> unit result" where
  "wait_for_ssh_loop 0 env instance_ip = (\<lambda>w. (Interrupted, w))"
| "wait_for_ssh_loop (Suc patience) env instance_ip =
     bnd (ssh_run env instance_ip ''echo ok'') (\<lambda>result.
       if returncode result = 0 then act (print [Lit '' Ready!''])
       else
         andthen (act (print_noend [Lit ''.'']))
        (andthen (act (sleep 5))
                 (wait_for_ssh_loop patience env instance_ip)))"

definition wait_for_ssh :: "nat \<Rightarrow> env \<Rightarrow> json \<Rightarrow> world \<Rightarrow> unit result" where
  "wait_for_ssh patience env instance_ip =
     andthen (act (print_noend [Lit ''Waiting for SSH'']))
             (wait_for_ssh_loop patience env instance_ip)"

section \<open>Token extraction\<close>

text \<open>
  \<^verbatim>\<open>re.search(r'token=([a-zA-Z0-9_-]+)', log_output)\<close>: the leftmost position where
  \<^verbatim>\<open>token=\<close> is followed by at least one character of the class; the group is the
  longest run of such characters there.
\<close>

definition token_char :: "char \<Rightarrow> bool" where
  "token_char c =
     ((CHR ''a'' \<le> c \<and> c \<le> CHR ''z'') \<or> (CHR ''A'' \<le> c \<and> c \<le> CHR ''Z'')
      \<or> (CHR ''0'' \<le> c \<and> c \<le> CHR ''9'') \<or> c = CHR ''_'' \<or> c = CHR ''-'')"

definition match_here :: "string \<Rightarrow> bool" where
  "match_here s = (starts_with s ''token='' \<and> takeWhile token_char (drop 6 s) \<noteq> [])"

fun extract_jupyter_token :: "string \<Rightarrow> string" where
  "extract_jupyter_token [] = []"
| "extract_jupyter_token (c # cs) =
     (if match_here (c # cs) then takeWhile token_char (drop 6 (c # cs))
      else extract_jupyter_token cs)"

text \<open>\<^verbatim>\<open>result.stdout\<close> where a string is needed.\<close>

definition captured_stdout :: "proc \<Rightarrow> exn + string" where
  "captured_stdout p = (case stdout p of None \<Rightarrow> Inl TypeError | Some s \<Rightarrow> Inr s)"

section \<open>The tunnel\<close>

text \<open>
  \<^verbatim>\<open>start_ssh_tunnel\<close>: the foreground \<^verbatim>\<open>ssh -N -L\<close>; a \<^verbatim>\<open>KeyboardInterrupt\<close> during
  it is caught.
\<close>

definition start_ssh_tunnel :: "env \<Rightarrow> json \<Rightarrow> world \<Rightarrow> world" where
  "start_ssh_tunnel env instance_ip w =
     (let w1 = print [Lit (NL @ ''Starting SSH tunnel to ''), Val instance_ip, Lit ''...''] w;
          w2 = print [Lit (''Press Ctrl+C to disconnect, then run './scw.py stop' to terminate instance.'' @ NL)] w1;
          cmd = [S ''ssh'', S ''-N'', S ''-L'', S (JUPYTER_PORT @ '':localhost:'' @ JUPYTER_PORT)]
                @ SSH_OPTS @ [F [Lit ''root@'', Val instance_ip]]
      in if interrupted env (trace w2)
         then print [Lit (NL @ ''Tunnel closed.'')] (emit (RunInterrupted cmd) w2)
         else emit (Run cmd False (respond env (trace w2) cmd)) w2)"

section \<open>Workspace sync\<close>

definition upload_work_dir :: "env \<Rightarrow> json \<Rightarrow> world \<Rightarrow> unit result" where
  "upload_work_dir env instance_ip =
     bnd (path_exists env LOCAL_WORK_DIR) (\<lambda>ex.
       if \<not> ex then
         act (print [Lit ''Local work directory '', PathStr LOCAL_WORK_DIR,
                     Lit '' does not exist, skipping upload.''])
       else
         andthen (act (print [Lit ''Uploading '', PathStr LOCAL_WORK_DIR, Lit '' to '',
                              Lit REMOTE_WORK_DIR, Lit ''...'']))
        (bnd (ssh_run env instance_ip (''mkdir -p '' @ REMOTE_WORK_DIR)) (\<lambda>_.
         bnd (scp_to_instance env [PathStr LOCAL_WORK_DIR, Lit ''/.''] REMOTE_WORK_DIR
                instance_ip True) (\<lambda>result.
           if returncode result \<noteq> 0 then
             act (print [Lit ''Warning: Failed to upload work directory: '',
                         Captured (stderr result)])
           else act (print [Lit ''Work directory uploaded successfully.''])))))"

definition download_work_dir :: "env \<Rightarrow> json \<Rightarrow> world \<Rightarrow> unit result" where
  "download_work_dir env instance_ip =
     andthen (act (mkdir LOCAL_WORK_DIR))
    (andthen (act (print [Lit ''Downloading '', Lit REMOTE_WORK_DIR, Lit '' to '',
                          PathStr LOCAL_WORK_DIR, Lit ''...'']))
    (bnd (ssh_run env instance_ip (''test -d '' @ REMOTE_WORK_DIR @ '' && echo exists'')) (\<lambda>check.
     bnd (pure (in_stdout ''exists'' check)) (\<lambda>found.
       if \<not> found then
         act (print [Lit ''Remote work directory '', Lit REMOTE_WORK_DIR,
                     Lit '' does not exist, skipping download.''])
       else
         bnd (scp_from_instance env (REMOTE_WORK_DIR @ ''/.'') [PathStr LOCAL_WORK_DIR]
                instance_ip True) (\<lambda>result.
           if returncode result \<noteq> 0 then
             act (print [Lit ''Warning: Failed to download work directory: '',
                         Captured (stderr result)])
           else act (print [Lit ''Work directory downloaded successfully.'']))))))"

definition upload :: "env \<Rightarrow> string \<Rightarrow> world \<Rightarrow> unit result" where
  "upload env filename =
     bnd load_state (\<lambda>state.
      if \<not> truthy state then
        andthen (act (print [Lit ''No running instance found. Run 'start' first.'']))
                (raise (SystemExit 1))
      else
        bnd (pure (subscript state ''ip'')) (\<lambda>instance_ip.
          let local_path = LOCAL_WORK_DIR_slash filename;
              remote_path = REMOTE_WORK_DIR @ ''/'' @ filename
          in
          bnd (path_exists env local_path) (\<lambda>ex.
            if \<not> ex then
              andthen (act (print [Lit ''Error: '', PathStr local_path, Lit '' does not exist.'']))
                      (raise (SystemExit 1))
            else
              bnd (ssh_run env instance_ip (''mkdir -p '' @ REMOTE_WORK_DIR)) (\<lambda>_.
              bnd (path_is_dir env local_path) (\<lambda>is_dir.
              andthen (act (print [Lit ''Uploading '', PathStr local_path, Lit '' to '',
                                   Lit remote_path, Lit ''...'']))
             (bnd (scp_to_instance env [PathStr local_path] remote_path instance_ip is_dir)
                (\<lambda>result.
                  if returncode result \<noteq> 0 then
                    andthen (act (print [Lit ''Upload failed: '', Captured (stderr result)]))
                            (raise (SystemExit 1))
                  else act (print [Lit ''Upload complete.'']))))))))"

definition download :: "env \<Rightarrow> string \<Rightarrow> world \<Rightarrow> unit result" where
  "download env filename =
     bnd load_state (\<lambda>state.
      if \<not> truthy state then
        andthen (act (print [Lit ''No running instance found. Run 'start' first.'']))
                (raise (SystemExit 1))
      else
        bnd (pure (subscript state ''ip'')) (\<lambda>instance_ip.
          let remote_path = REMOTE_WORK_DIR @ ''/'' @ filename;
              local_path = LOCAL_WORK_DIR_slash filename
          in
          andthen (act (mkdir LOCAL_WORK_DIR))
         (bnd (ssh_run env instance_ip (''test -d '' @ remote_path @ '' && echo isdir'')) (\<lambda>check.
          bnd (pure (in_stdout ''isdir'' check)) (\<lambda>is_dir.
          andthen (act (print [Lit ''Downloading '', Lit remote_path, Lit '' to '',
                               PathStr local_path, Lit ''...'']))
         (bnd (scp_from_instance env remote_path [PathStr local_path] instance_ip is_dir)
            (\<lambda>result.
              if returncode result \<noteq> 0 then
                andthen (act (print [Lit ''Download failed: '', Captured (stderr result)]))
                        (raise (SystemExit 1))
              else act (print [Lit ''Download complete.'']))))))))"

section \<open>Provisioning and teardown\<close>

definition start :: "nat \<Rightarrow> env \<Rightarrow> world \<Rightarrow> unit result" where
  "start patience env =
     bnd load_state (\<lambda>state.
      if truthy state then
        bnd (pure (subscript state ''id'')) (\<lambda>sid.
        bnd (pure (subscript state ''ip'')) (\<lambda>sip.
        andthen (act (print [Lit ''Instance already exists: '', Val sid, Lit '' ('',
                             Val sip, Lit '')'']))
       (andthen (act (print [Lit ''Run 'stop' first to terminate it.'']))
                (raise (SystemExit 1)))))
      else
        andthen (act (print [Lit ''Creating '', Lit INSTANCE_TYPE, Lit '' instance...'']))
       (bnd (scw env [S ''instance'', S ''server'', S ''create'', S (''type='' @ INSTANCE_TYPE),
                      S (''zone='' @ ZONE), S (''image='' @ IMAGE), S ''-o'', S ''json''])
          (\<lambda>result.
            if returncode result \<noteq> 0 then
              andthen (act (print [Lit ''Failed to create instance: '',
                                   Captured (stderr result)]))
                      (raise (SystemExit 1))
            else
              bnd (pure (json_loads result)) (\<lambda>data.
              bnd (pure (subscript data ''id'')) (\<lambda>instance_id.
              andthen (act (print [Lit ''Instance ID: '', Val instance_id]))
             (andthen (wait_for_running patience env instance_id)
             (bnd (wait_for_ip patience env instance_id) (\<lambda>instance_ip.
              andthen (remove_from_known_hosts env instance_ip)
             (andthen (act (save_state instance_id instance_ip))
             (andthen (wait_for_ssh patience env instance_ip)
             (andthen (upload_work_dir env instance_ip)
             (andthen (act (print [Lit ''Setting up instance (apt upgrade, venv, jupyter)...'']))
             (bnd (ssh_run env instance_ip REMOTE_SETUP_SCRIPT) (\<lambda>result.
                if returncode result \<noteq> 0 then
                  andthen (act (print [Lit ''Setup failed: '', Captured (stderr result)]))
                          (raise (SystemExit 1))
                else
                  bnd (pure (captured_stdout result)) (\<lambda>log_output.
                  let token = extract_jupyter_token log_output in
                  andthen (act (print [Lit (NL @ replicate 60 (CHR ''=''))]))
                 (andthen (act (print [Lit ''SETUP COMPLETE'']))
                 (andthen (act (print [Lit (replicate 60 (CHR ''=''))]))
                 (andthen (act (print [Lit (NL @ ''Instance ID: ''), Val instance_id]))
                 (andthen (act (print [Lit ''Instance IP: '', Val instance_ip]))
                 (andthen (act (print [Lit (NL @ ''Open in browser:'')]))
                 (andthen (if token \<noteq> [] then
                             act (print [Lit ''  http://localhost:'', Lit JUPYTER_PORT,
                                         Lit ''/?token='', Lit token])
                           else act (print [Lit ''  http://localhost:'', Lit JUPYTER_PORT]))
                 (andthen (act (print [Lit (replicate 60 (CHR ''=''))]))
                          (act (start_ssh_tunnel env instance_ip))))))))))))))))))))))))"

definition stop :: "env \<Rightarrow> world \<Rightarrow> unit result" where
  "stop env =
     bnd load_state (\<lambda>state.
      if \<not> truthy state then
        andthen (act (print [Lit ''No instance found. Nothing to stop.'']))
                (raise (SystemExit 0))
      else
        bnd (pure (subscript state ''id'')) (\<lambda>instance_id.
        bnd (pure (get_default state ''ip'' JNull)) (\<lambda>instance_ip.
        andthen (if truthy instance_ip then download_work_dir env instance_ip else ret ())
       (andthen (act (print [Lit ''Stopping and deleting instance '', Val instance_id,
                             Lit ''...'']))
       (andthen (if truthy instance_ip then remove_from_known_hosts env instance_ip else ret ())
       (andthen (act (print [Lit ''Stopping instance...'']))
       (bnd (scw env [S ''instance'', S ''server'', S ''stop'', V instance_id,
                      S (''zone='' @ ZONE), S ''--wait'']) (\<lambda>result.
        andthen (if returncode result \<noteq> 0 then
                   act (print [Lit ''Warning: Stop may have failed: '', Captured (stderr result)])
                 else ret ())
       (andthen (act (print [Lit ''Deleting instance...'']))
       (bnd (scw env [S ''instance'', S ''server'', S ''delete'', V instance_id,
                      S (''zone='' @ ZONE), S ''with-ip=true'', S ''with-volumes=local''])
          (\<lambda>result.
        andthen (if returncode result \<noteq> 0 then
                   act (print [Lit ''Warning: Delete may have failed: '',
                               Captured (stderr result)])
                 else ret ())
       (andthen (act delete_state)
                (act (print [Lit ''Instance deleted. State cleared.'']))))))))))))))"

section \<open>Observing a run\<close>

text \<open>
  Observers of the log, used to state the properties: the provider calls (every
  \<^verbatim>\<open>scw\<close> command), the commands that reach the instance (\<^verbatim>\<open>ssh\<close>, \<^verbatim>\<open>scp\<close>),
  and the number of times one command was run.
\<close>

fun is_provider_call :: "event \<Rightarrow> bool" where
  "is_provider_call (Run (S p # args) c r) = (p = ''scw'')"
| "is_provider_call _ = False"

fun is_remote_call :: "event \<Rightarrow> bool" where
  "is_remote_call (Run (S p # args) c r) = (p = ''ssh'' \<or> p = ''scp'')"
| "is_remote_call (RunInterrupted (S p # args)) = (p = ''ssh'' \<or> p = ''scp'')"
| "is_remote_call _ = False"

fun polls :: "arg list \<Rightarrow> log \<Rightarrow> nat" where
  "polls cmd [] = 0"
| "polls cmd ((Run cmd' c r, s) # t) = (if cmd' = cmd then Suc (polls cmd t) else polls cmd t)"
| "polls cmd (_ # t) = polls cmd t"

text \<open>
  \<open>finishes m w Q\<close>: run from \<open>w\<close>, the step \<open>m\<close> only appends to the log, and its
  outcome, the events it appended and the final content of the state file satisfy \<open>Q\<close>.
\<close>

definition finishes ::
    "(world \<Rightarrow> 'a result) \<Rightarrow> world \<Rightarrow> ('a outcome \<Rightarrow> log \<Rightarrow> json option \<Rightarrow> bool) \<Rightarrow> bool" where
  "finishes m w Q =
     (\<exists>new. trace (snd (m w)) = trace w @ new \<and> Q (fst (m w)) new (state_file (snd (m w))))"

text \<open>
  The commands of the Provider Port and of the Remote Execution Port, as the program
  builds them.
\<close>

definition cmd_create :: "arg list" where
  "cmd_create = [S ''scw'', S ''instance'', S ''server'', S ''create'', S (''type='' @ INSTANCE_TYPE),
                 S (''zone='' @ ZONE), S (''image='' @ IMAGE), S ''-o'', S ''json'']"

definition cmd_get :: "string \<Rightarrow> arg list" where
  "cmd_get i = [S ''scw'', S ''instance'', S ''server'', S ''get'', V (JStr i),
                S (''zone='' @ ZONE), S ''-o'', S ''json'']"

definition cmd_ip_list :: "arg list" where
  "cmd_ip_list = [S ''scw'', S ''instance'', S ''ip'', S ''list'', S (''zone='' @ ZONE), S ''-o'', S ''json'']"

definition cmd_ssh :: "string \<Rightarrow> string \<Rightarrow> arg list" where
  "cmd_ssh a command = [S ''ssh''] @ SSH_OPTS @ [F [Lit ''root@'', Val (JStr a)], S command]"

text \<open>
  The polling discipline, read off the log: a \<open>Query\<close> for each run of the polled
  command, a \<open>Nap n\<close> for each \<^verbatim>\<open>time.sleep(n)\<close>.
\<close>

datatype tick = Query | Nap nat

fun ticks :: "arg list \<Rightarrow> log \<Rightarrow> tick list" where
  "ticks cmd [] = []"
| "ticks cmd ((Run cmd' c r, s) # t) = (if cmd' = cmd then Query # ticks cmd t else ticks cmd t)"
| "ticks cmd ((Sleep n, s) # t) = Nap n # ticks cmd t"
| "ticks cmd (_ # t) = ticks cmd t"

text \<open>What the provider says the power state is, in a reply to the power-state query.\<close>

definition reports_state :: "reply \<Rightarrow> string \<Rightarrow> bool" where
  "reports_state r st =
     (case out_json r of
        Some (JDict kvs) \<Rightarrow> map_of kvs ''state'' = Some (JStr st)
      | _ \<Rightarrow> False)"

text \<open>
  The state file holds a Lifecycle Record, as \<^verbatim>\<open>save_state\<close> writes it; and a log in
  which every provider call happened without a record and every command sent to the
  instance happened with one.
\<close>

fun is_record :: "json option \<Rightarrow> bool" where
  "is_record (Some (JDict [(k1, i), (k2, a)])) = (k1 = ''id'' \<and> k2 = ''ip'')"
| "is_record _ = False"

definition guarded :: "log \<Rightarrow> bool" where
  "guarded n = (\<forall>x\<in>set n. (is_provider_call (fst x) \<longrightarrow> snd x = None)
                          \<and> (is_remote_call (fst x) \<longrightarrow> is_record (snd x)))"

text \<open>
  The log of a teardown: every event but the last was logged with the state file holding
  \<open>s\<close>, and the last event is the closing message, logged with no state file.
\<close>

definition cleared_last :: "json option \<Rightarrow> log \<Rightarrow> bool" where
  "cleared_last s n =
     (\<exists>m. n = m @ [(Print [Lit ''Instance deleted. State cleared.''], None)]
          \<and> (\<forall>x\<in>set m. snd x = s))"

section \<open>Concrete environments\<close>

text \<open>
  Mock ports for concrete runs: the answer to a command is a function of the command and
  of how many times it has been run before; the file system is fixed.
\<close>

definition scripted :: "(arg list \<Rightarrow> nat \<Rightarrow> reply) \<Rightarrow> (path \<Rightarrow> bool) \<Rightarrow> (path \<Rightarrow> bool) \<Rightarrow> env" where
  "scripted script ex dir =
     \<lparr>respond = (\<lambda>t cmd. script cmd (polls cmd t)),
      fs_exists = (\<lambda>t p. ex p),
      fs_is_dir = (\<lambda>t p. dir p),
      interrupted = (\<lambda>t. True)\<rparr>"

definition ok_reply :: reply where
  "ok_reply = \<lparr>rc = 0, out = [], err = [], out_json = None\<rparr>"

definition failed_reply :: reply where
  "failed_reply = \<lparr>rc = 1, out = [], err = ''connection refused'', out_json = None\<rparr>"

definition json_reply :: "json \<Rightarrow> reply" where
  "json_reply j = \<lparr>rc = 0, out = ''(json)'', err = [], out_json = Some j\<rparr>"

definition text_reply :: "string \<Rightarrow> reply" where
  "text_reply s = \<lparr>rc = 0, out = s, err = [], out_json = None\<rparr>"


text \<open>Nothing exists locally and every command succeeds with empty output.\<close>

definition env_quiet :: env where
  "env_quiet = scripted (\<lambda>cmd n. ok_reply) (\<lambda>p. False) (\<lambda>p. False)"

text \<open>The work directory exists locally and every command fails.\<close>

definition env_failing :: env where
  "env_failing = scripted (\<lambda>cmd n. failed_reply) (\<lambda>p. True) (\<lambda>p. False)"

text \<open>Every path is a directory, locally and remotely; every command succeeds.\<close>

definition env_dirs :: env where
  "env_dirs = scripted (\<lambda>cmd n. text_reply ''isdir exists'') (\<lambda>p. True) (\<lambda>p. True)"

text \<open>
  The end-to-end scenario: the provider returns identifier \<^verbatim>\<open>i-1\<close>; the power state is
  pending, pending, running; the address is absent, absent, \<^verbatim>\<open>10.0.0.5\<close>; the shell check
  fails, fails, succeeds; the bootstrap prints a token.
\<close>

definition script_e2e :: "arg list \<Rightarrow> nat \<Rightarrow> reply" where
  "script_e2e cmd n =
     (if cmd = cmd_create then json_reply (JDict [(''id'', JStr ''i-1'')])
      else if cmd = cmd_get ''i-1'' then
        json_reply (JDict [(''state'', JStr (if n < 2 then ''pending'' else ''running''))])
      else if cmd = cmd_ip_list then
        json_reply (JList (if n < 2 then []
                           else [JDict [(''address'', JStr ''10.0.0.5''),
                                        (''server'', JDict [(''id'', JStr ''i-1'')])]]))
      else if cmd = cmd_ssh ''10.0.0.5'' ''echo ok'' then (if n < 2 then failed_reply else ok_reply)
      else if cmd = cmd_ssh ''10.0.0.5'' REMOTE_SETUP_SCRIPT then
        text_reply ''http://localhost:8888/?token=abc123XYZ_-''
      else ok_reply)"

definition env_e2e :: env where
  "env_e2e = scripted script_e2e (\<lambda>p. False) (\<lambda>p. False)"

text \<open>
  The prompt scenario: the provider returns identifier \<^verbatim>\<open>i-1\<close>, reports it running
  and lists its address \<^verbatim>\<open>10.0.0.5\<close> at the first poll; every other command succeeds;
  locally only the known-hosts file exists.
\<close>

definition script_prompt :: "arg list \<Rightarrow> nat \<Rightarrow> reply" where
  "script_prompt cmd n =
     (if cmd = cmd_create then json_reply (JDict [(''id'', JStr ''i-1'')])
      else if cmd = cmd_get ''i-1'' then json_reply (JDict [(''state'', JStr ''running'')])
      else if cmd = cmd_ip_list then
        json_reply (JList [JDict [(''address'', JStr ''10.0.0.5''),
                                  (''server'', JDict [(''id'', JStr ''i-1'')])]])
      else ok_reply)"

definition env_prompt :: env where
  "env_prompt = scripted script_prompt (\<lambda>p. p = KNOWN_HOSTS) (\<lambda>p. False)"

text \<open>The state after a successful \<^verbatim>\<open>start\<close> of instance \<^verbatim>\<open>i-1\<close> at \<^verbatim>\<open>10.0.0.5\<close>.\<close>

definition w_owned :: world where
  "w_owned = \<lparr>state_file = Some (JDict [(''id'', JStr ''i-1''), (''ip'', JStr ''10.0.0.5'')]),
              trace = []\<rparr>"

definition w_fresh :: world where
  "w_fresh = \<lparr>state_file = None, trace = []\<rparr>"

section \<open>Properties\<close>

lemmas seq_defs = bnd_def andthen_def act_def ret_def raise_def pure_def Let_def

lemmas io_defs = emit_def print_def print_noend_def sleep_def mkdir_def run_def scw_def
  ssh_run_def scp_to_instance_def scp_from_instance_def path_exists_def path_is_dir_def
  SSH_OPTS_def

lemmas mock_defs = scripted_def ok_reply_def failed_reply_def json_reply_def text_reply_def

lemma map_of_nonempty: "map_of kvs k = Some v \<Longrightarrow> kvs \<noteq> []"
  by auto

subsection \<open>Stepping through a run\<close>

lemma state_file_emit [simp]: "state_file (emit e w) = state_file w"
  by (simp add: emit_def)

lemma trace_emit [simp]: "trace (emit e w) = trace w @ [(e, state_file w)]"
  by (simp add: emit_def)

lemma trace_delete_state [simp]: "trace (delete_state w) = trace w"
  by (simp add: delete_state_def)

lemma state_file_delete_state [simp]: "state_file (delete_state w) = None"
  by (simp add: delete_state_def)

lemma trace_save_state [simp]: "trace (save_state i a w) = trace w"
  by (simp add: save_state_def)

lemma state_file_save_state [simp]:
  "state_file (save_state i a w) = Some (JDict [(''id'', i), (''ip'', a)])"
  by (simp add: save_state_def)

lemmas emit_forms = print_def print_noend_def sleep_def mkdir_def

lemma polls_append [simp]: "polls cmd (xs @ ys) = polls cmd xs + polls cmd ys"
  by (induction cmd xs rule: polls.induct) auto

lemma polls_no_provider:
  "\<forall>x\<in>set n. \<not> is_provider_call (fst x) \<Longrightarrow> polls (S ''scw'' # args) n = 0"
  by (induction "S ''scw'' # args" n rule: polls.induct) auto

lemma fin_ret: "Q (Returned x) [] (state_file w) \<Longrightarrow> finishes (ret x) w Q"
  by (simp add: finishes_def ret_def)

lemma fin_raise: "Q (Raised e) [] (state_file w) \<Longrightarrow> finishes (raise e) w Q"
  by (simp add: finishes_def raise_def)

lemma fin_emit:
  "Q (Returned ()) [(e, state_file w)] (state_file w) \<Longrightarrow> finishes (act (emit e)) w Q"
  by (simp add: finishes_def act_def)

lemma fin_weaken:
  "finishes m w P \<Longrightarrow> (\<And>r n s. P r n s \<Longrightarrow> Q r n s) \<Longrightarrow> finishes m w Q"
  by (auto simp: finishes_def)

lemma fin_link:
  "finishes m w P \<Longrightarrow> finishes m w (\<lambda>r n s. P r n s \<and> trace (snd (m w)) = trace w @ n)"
  by (auto simp: finishes_def)

lemma fin_bnd:
  assumes "finishes m w P"
    and "\<And>x n s w'. P (Returned x) n s \<Longrightarrow> state_file w' = s \<Longrightarrow> trace w' = trace w @ n
           \<Longrightarrow> finishes (f x) w' (\<lambda>r n' s'. Q r (n @ n') s')"
    and "\<And>e n s. P (Raised e) n s \<Longrightarrow> Q (Raised e) n s"
    and "\<And>n s. P Interrupted n s \<Longrightarrow> Q Interrupted n s"
  shows "finishes (bnd m f) w Q"
proof -
  obtain r w1 where mw: "m w = (r, w1)"
    by (cases "m w")
  from assms(1) mw obtain n where n: "trace w1 = trace w @ n" "P r n (state_file w1)"
    by (auto simp: finishes_def)
  show ?thesis
  proof (cases r)
    case (Returned x)
    from assms(2) [of x n "state_file w1" w1] n Returned
    have "finishes (f x) w1 (\<lambda>r n' s'. Q r (n @ n') s')"
      by simp
    then show ?thesis
      using mw Returned n by (auto simp: finishes_def bnd_def)
  next
    case (Raised e)
    then show ?thesis
      using assms(3) mw n by (auto simp: finishes_def bnd_def)
  next
    case Interrupted
    then show ?thesis
      using assms(4) mw n by (auto simp: finishes_def bnd_def)
  qed
qed

lemma fin_andthen:
  assumes "finishes m w P"
    and "\<And>n s w'. P (Returned ()) n s \<Longrightarrow> state_file w' = s \<Longrightarrow> trace w' = trace w @ n
           \<Longrightarrow> finishes k w' (\<lambda>r n' s'. Q r (n @ n') s')"
    and "\<And>e n s. P (Raised e) n s \<Longrightarrow> Q (Raised e) n s"
    and "\<And>n s. P Interrupted n s \<Longrightarrow> Q Interrupted n s"
  shows "finishes (andthen m k) w Q"
  unfolding andthen_def
proof (rule fin_bnd [OF assms(1)])
  fix x :: unit and n s and w' :: world
  assume "P (Returned x) n s" "state_file w' = s" "trace w' = trace w @ n"
  then show "finishes k w' (\<lambda>r n' s'. Q r (n @ n') s')"
    using assms(2) [of n s w'] by simp
qed (use assms(3,4) in auto)

lemma fin_andthen_emit:
  "finishes k (emit e w) (\<lambda>r n s. Q r ((e, state_file w) # n) s)
   \<Longrightarrow> finishes (andthen (act (emit e)) k) w Q"
  by (auto simp: finishes_def andthen_def bnd_def act_def)

lemma fin_andthen_act:
  "trace (g w) = trace w \<Longrightarrow> finishes k (g w) Q \<Longrightarrow> finishes (andthen (act g) k) w Q"
  by (auto simp: finishes_def andthen_def bnd_def act_def)

lemma fin_andthen_ret: "finishes k w Q \<Longrightarrow> finishes (andthen (ret ()) k) w Q"
  by (simp add: finishes_def andthen_def bnd_def ret_def)

lemma fin_bnd_run:
  assumes "str_args cmd"
    and "\<And>r. finishes (f \<lparr>returncode = rc r,
                          stdout = (if c then Some (out r) else None),
                          stderr = (if c then Some (err r) else None),
                          stdout_json = (if c then out_json r else None)\<rparr>)
               (emit (Run cmd c r) w) (\<lambda>res n s. Q res ((Run cmd c r, state_file w) # n) s)"
  shows "finishes (bnd (run env cmd c) f) w Q"
  using assms(1) assms(2) [of "respond env (trace w) cmd"]
  by (auto simp: finishes_def bnd_def run_def Let_def)

lemma fin_bnd_pure:
  assumes "\<And>x. v = Inr x \<Longrightarrow> finishes (f x) w Q"
    and "\<And>e. v = Inl e \<Longrightarrow> Q (Raised e) [] (state_file w)"
  shows "finishes (bnd (pure v) f) w Q"
  using assms by (cases v) (auto simp: finishes_def bnd_def pure_def)

lemma fin_bnd_exists:
  assumes "\<And>b. b = fs_exists env (trace w) p \<Longrightarrow>
             finishes (f b) (emit (Exists p b) w) (\<lambda>r n s. Q r ((Exists p b, state_file w) # n) s)"
  shows "finishes (bnd (path_exists env p) f) w Q"
  using assms by (auto simp: finishes_def bnd_def path_exists_def Let_def)

lemma fin_bnd_is_dir:
  assumes "\<And>b. b = fs_is_dir env (trace w) p \<Longrightarrow>
             finishes (f b) (emit (IsDir p b) w) (\<lambda>r n s. Q r ((IsDir p b, state_file w) # n) s)"
  shows "finishes (bnd (path_is_dir env p) f) w Q"
  using assms by (auto simp: finishes_def bnd_def path_is_dir_def Let_def)

lemma fin_bnd_load:
  "finishes (f (case state_file w of None \<Rightarrow> JNull | Some j \<Rightarrow> j)) w Q
   \<Longrightarrow> finishes (bnd load_state f) w Q"
  by (simp add: finishes_def bnd_def load_state_def)

lemma fin_if:
  "(b \<Longrightarrow> finishes m1 w Q) \<Longrightarrow> (\<not> b \<Longrightarrow> finishes m2 w Q)
   \<Longrightarrow> finishes (if b then m1 else m2) w Q"
  by simp

lemma andthen_if: "andthen (if b then m1 else m2) k = (if b then andthen m1 k else andthen m2 k)"
  by simp

lemma bnd_pure_Inr: "bnd (pure (Inr x)) f = f x"
  by (rule ext) (simp add: bnd_def pure_def)

lemma bnd_pure_Inl: "bnd (pure (Inl e)) f = raise e"
  by (rule ext) (simp add: bnd_def pure_def raise_def)

lemmas fin_steps = fin_andthen_emit fin_andthen_ret fin_bnd_exists fin_bnd_is_dir
  fin_if fin_emit fin_ret fin_raise

lemmas pure_simps = bnd_pure_Inr bnd_pure_Inl in_stdout_def captured_stdout_def SSH_OPTS_def

text \<open>Steps whose outcome is known.\<close>

lemma fin_bnd_at:
  assumes "m w = (Returned x, w')" and "trace w' = trace w @ n"
    and "finishes (f x) w' (\<lambda>r n' s. Q r (n @ n') s)"
  shows "finishes (bnd m f) w Q"
  using assms by (auto simp: finishes_def bnd_def)

lemma fin_andthen_at:
  assumes "m w = (Returned (), w')" and "trace w' = trace w @ n"
    and "finishes k w' (\<lambda>r n' s. Q r (n @ n') s)"
  shows "finishes (andthen m k) w Q"
  using assms by (auto simp: finishes_def bnd_def andthen_def)

lemma fin_bnd_run_at:
  assumes "str_args cmd" and "r = respond env (trace w) cmd"
    and "finishes (f \<lparr>returncode = rc r,
                          stdout = (if c then Some (out r) else None),
                          stderr = (if c then Some (err r) else None),
                          stdout_json = (if c then out_json r else None)\<rparr>)
               (emit (Run cmd c r) w) (\<lambda>res n s. Q res ((Run cmd c r, state_file w) # n) s)"
  shows "finishes (bnd (run env cmd c) f) w Q"
  using assms by (auto simp: finishes_def bnd_def run_def Let_def)

lemma andthen_assoc: "andthen (andthen a b) k = andthen a (andthen b k)"
  by (rule ext) (simp add: andthen_def bnd_def split: prod.splits outcome.splits)

lemma finishes_at:
  assumes "finishes m w P" and "m w = (r, w')"
  shows "\<exists>n. trace w' = trace w @ n \<and> P r n (state_file w')"
  using assms by (auto simp: finishes_def)

lemma guarded_Nil [simp]: "guarded []"
  by (simp add: guarded_def)

lemma guarded_Cons [simp]:
  "guarded (x # n) = ((is_provider_call (fst x) \<longrightarrow> snd x = None)
                      \<and> (is_remote_call (fst x) \<longrightarrow> is_record (snd x)) \<and> guarded n)"
  by (auto simp: guarded_def)

lemma guarded_append [simp]: "guarded (n @ n') = (guarded n \<and> guarded n')"
  by (auto simp: guarded_def)

lemma fin_bnd_run_any:
  assumes "\<And>r. str_args cmd \<Longrightarrow>
             finishes (f \<lparr>returncode = rc r,
                          stdout = (if c then Some (out r) else None),
                          stderr = (if c then Some (err r) else None),
                          stdout_json = (if c then out_json r else None)\<rparr>)
               (emit (Run cmd c r) w) (\<lambda>res n s. Q res ((Run cmd c r, state_file w) # n) s)"
    and "\<not> str_args cmd \<Longrightarrow> Q (Raised TypeError) [] (state_file w)"
  shows "finishes (bnd (run env cmd c) f) w Q"
  using assms(1) [of "respond env (trace w) cmd"] assms(2)
  by (auto simp: finishes_def bnd_def run_def Let_def)

lemma fin_pure: "(\<And>x. v = Inr x \<Longrightarrow> Q (Returned x) [] (state_file w))
   \<Longrightarrow> (\<And>e. v = Inl e \<Longrightarrow> Q (Raised e) [] (state_file w)) \<Longrightarrow> finishes (pure v) w Q"
  by (cases v) (auto simp: finishes_def pure_def)

lemma ticks_append [simp]: "ticks cmd (xs @ ys) = ticks cmd xs @ ticks cmd ys"
  by (induction cmd xs rule: ticks.induct) auto


lemma download_work_dir_spec:
  "finishes (download_work_dir env (JStr a)) w (\<lambda>r n s.
     r = Returned () \<and> s = state_file w
     \<and> (\<forall>x\<in>set n. \<not> is_provider_call (fst x))
     \<and> polls ([S ''ssh''] @ SSH_OPTS @ [F [Lit ''root@'', Val (JStr a)],
                 S (''test -d '' @ REMOTE_WORK_DIR @ '' && echo exists'')]) n = 1)"
  unfolding download_work_dir_def ssh_run_def scp_from_instance_def emit_forms
  by ((rule fin_steps | (rule fin_bnd_run, simp add: SSH_OPTS_def)
       | simp add: pure_simps split del: if_split)+)

lemma remove_from_known_hosts_spec:
  "finishes (remove_from_known_hosts env (JStr a)) w (\<lambda>r n s.
     r = Returned () \<and> s = state_file w
     \<and> (\<forall>x\<in>set n. \<not> is_provider_call (fst x))
     \<and> (\<forall>x\<in>set n. \<not> is_remote_call (fst x)))"
  unfolding remove_from_known_hosts_def emit_forms
  by ((rule fin_steps | (rule fin_bnd_run, simp add: SSH_OPTS_def)
       | simp add: pure_simps split del: if_split)+)

subsection \<open>The persisted state\<close>

text \<open>
  C9. Loading right after saving \<open>(iid, ip)\<close> gives a record whose identifier
  (\<^verbatim>\<open>state["id"]\<close>) is \<open>iid\<close> and whose address (\<^verbatim>\<open>state["ip"]\<close>) is \<open>ip\<close>, for all
  values, strings among them; loading after deleting gives the absent-record result
  (\<^verbatim>\<open>None\<close>), whatever the state was.
\<close>

theorem state_round_trip:
  "fst (load_state (save_state iid ip w)) = Returned (JDict [(''id'', iid), (''ip'', ip)])
   \<and> fst (bnd load_state (\<lambda>state. pure (subscript state ''id'')) (save_state iid ip w))
       = Returned iid
   \<and> fst (bnd load_state (\<lambda>state. pure (subscript state ''ip'')) (save_state iid ip w))
       = Returned ip
   \<and> fst (load_state (delete_state w)) = Returned JNull"
  by (simp add: load_state_def save_state_def delete_state_def bnd_def pure_def)

subsection \<open>Token extraction\<close>

lemma takeWhile_stops:
  "post = [] \<or> \<not> token_char (hd post) \<Longrightarrow> takeWhile token_char post = []"
  by (cases post) auto

lemma extract_first_match:
  assumes "\<forall>c\<in>set t. token_char c" and "t \<noteq> []"
    and "post = [] \<or> \<not> token_char (hd post)"
    and "\<forall>i<length pre. \<not> match_here (drop i (pre @ ''token='' @ t @ post))"
  shows "extract_jupyter_token (pre @ ''token='' @ t @ post) = t"
  using assms(4)
proof (induction pre)
  case Nil
  have "match_here (''token='' @ t @ post)"
    using assms(1-3) by (simp add: match_here_def takeWhile_stops)
  then show ?case
    using assms(1-3) by (simp add: takeWhile_stops)
next
  case (Cons c pre)
  have "\<not> match_here ((c # pre) @ ''token='' @ t @ post)"
    using Cons.prems [rule_format, of 0] by simp
  moreover have "\<forall>i<length pre. \<not> match_here (drop i (pre @ ''token='' @ t @ post))"
    using Cons.prems by (metis Suc_less_eq append_Cons drop_Suc_Cons length_Cons)
  ultimately show ?case
    using Cons.IH by simp
qed

lemma extract_no_token: "\<not> contains s ''token='' \<Longrightarrow> extract_jupyter_token s = []"
  by (induction s) (auto simp: match_here_def)

text \<open>
  C7, as stated, fails: the search returns the leftmost match, so an earlier
  \<^verbatim>\<open>token=x\<close> in the output wins over a later \<^verbatim>\<open>token=abc123XYZ_-\<close>.
\<close>

theorem extract_jupyter_token_counterexample:
  "extract_jupyter_token (''token=x '' @ ''token=abc123XYZ_-'' @ '' '') \<noteq> ''abc123XYZ_-''"
  by (simp add: match_here_def token_char_def)

text \<open>
  C7, amended. If the output contains \<^verbatim>\<open>token=abc123XYZ_-\<close> followed by a character
  outside the class or by the end of the text, and the pattern matches at no earlier
  position, the extracted token is \<^verbatim>\<open>abc123XYZ_-\<close>; if the output contains no
  \<^verbatim>\<open>token=\<close>, the result is the empty string.
\<close>

theorem extract_jupyter_token_leftmost:
  "((\<forall>i<length pre. \<not> match_here (drop i (pre @ ''token=abc123XYZ_-'' @ post)))
      \<and> (post = [] \<or> \<not> token_char (hd post))
    \<longrightarrow> extract_jupyter_token (pre @ ''token=abc123XYZ_-'' @ post) = ''abc123XYZ_-'')
   \<and> (\<not> contains s ''token='' \<longrightarrow> extract_jupyter_token s = [])"
proof -
  have "\<forall>c\<in>set ''abc123XYZ_-''. token_char c"
    by (simp add: token_char_def)
  then show ?thesis
    using extract_first_match [of "''abc123XYZ_-''" post pre] extract_no_token [of s]
    by simp
qed

theorem extract_jupyter_token_leftmost_witness:
  "\<not> match_here (drop 0 (''/?'' @ ''token=abc123XYZ_-'' @ '' ok''))
   \<and> \<not> match_here (drop 1 (''/?'' @ ''token=abc123XYZ_-'' @ '' ok''))
   \<and> \<not> token_char (hd '' ok'')
   \<and> extract_jupyter_token (''/?'' @ ''token=abc123XYZ_-'' @ '' ok'') = ''abc123XYZ_-''
   \<and> \<not> contains ''no tok here'' ''token=''
   \<and> extract_jupyter_token ''no tok here'' = []"
proof -
  have h1: "\<forall>i<length ''/?''. \<not> match_here (drop i (''/?'' @ ''token=abc123XYZ_-'' @ '' ok''))"
    by (simp add: match_here_def less_Suc_eq)
  have h2: "\<not> token_char (hd '' ok'')"
    by (simp add: token_char_def)
  have h3: "\<not> contains ''no tok here'' ''token=''"
    by simp
  have h0: "\<not> match_here (drop 0 (''/?'' @ ''token=abc123XYZ_-'' @ '' ok''))
      \<and> \<not> match_here (drop 1 (''/?'' @ ''token=abc123XYZ_-'' @ '' ok''))"
    by (simp add: match_here_def)
  show ?thesis
    using h0 h1 h2 h3 extract_jupyter_token_leftmost [of "''/?''" "'' ok''" "''no tok here''"]
    by blast
qed

subsection \<open>The idempotency guard\<close>

text \<open>
  C2. If a Lifecycle Record exists (a dict with an identifier and an address), \<^verbatim>\<open>start\<close>
  returns at once: it prints the identifier and the address, exits with status 1, runs no
  command at all (so no provider call), and leaves the state file as it was.
\<close>

theorem start_refuses_when_owned:
  assumes "state_file w = Some (JDict kvs)"
    and "map_of kvs ''id'' = Some sid" and "map_of kvs ''ip'' = Some sip"
  shows "start patience env w =
     (Raised (SystemExit 1),
           w\<lparr>trace := trace w @
                [(Print [Lit ''Instance already exists: '', Val sid, Lit '' ('', Val sip,
                         Lit '')''], state_file w),
                 (Print [Lit ''Run 'stop' first to terminate it.''], state_file w)]\<rparr>)
     \<and> exit_status (fst (start patience env w)) = Some 1"
  using assms map_of_nonempty [OF assms(2)]
  by (simp add: start_def load_state_def seq_defs io_defs)

theorem start_refuses_when_owned_witness:
  "start 3 env_quiet w_owned =
     (Raised (SystemExit 1),
           w_owned\<lparr>trace :=
                [(Print [Lit ''Instance already exists: '', Val (JStr ''i-1''), Lit '' ('',
                         Val (JStr ''10.0.0.5''), Lit '')''], state_file w_owned),
                 (Print [Lit ''Run 'stop' first to terminate it.''], state_file w_owned)]\<rparr>)"
  using start_refuses_when_owned [of w_owned
      "[(''id'', JStr ''i-1''), (''ip'', JStr ''10.0.0.5'')]" "JStr ''i-1''" "JStr ''10.0.0.5''"
      3 env_quiet]
  by (simp add: w_owned_def)

subsection \<open>Single-path transfers\<close>





lemma upload_spec:
  assumes "state_file w = Some (JDict kvs)" and "map_of kvs ''ip'' = Some ip"
    and "fs_exists env (trace w) (LOCAL_WORK_DIR_slash filename)"
  shows "finishes (upload env filename) w (\<lambda>r n s. \<exists>c1 d c2.
      n = map (\<lambda>e. (e, state_file w))
           [Exists (LOCAL_WORK_DIR_slash filename) True,
            Run ([S ''ssh''] @ SSH_OPTS @ [F [Lit ''root@'', Val ip],
                   S (''mkdir -p '' @ REMOTE_WORK_DIR)]) True c1,
            IsDir (LOCAL_WORK_DIR_slash filename) d,
            Print [Lit ''Uploading '', PathStr (LOCAL_WORK_DIR_slash filename), Lit '' to '',
                   Lit (REMOTE_WORK_DIR @ ''/'' @ filename), Lit ''...''],
            Run ([S ''scp''] @ SSH_OPTS @ (if d then [S ''-r''] else [])
                 @ [F [PathStr (LOCAL_WORK_DIR_slash filename)],
                    F [Lit ''root@'', Val ip, Lit '':'',
                       Lit (REMOTE_WORK_DIR @ ''/'' @ filename)]]) False c2,
            Print (if rc c2 \<noteq> 0 then [Lit ''Upload failed: '', Captured None]
                   else [Lit ''Upload complete.''])]
      \<and> r = (if rc c2 \<noteq> 0 then Raised (SystemExit 1) else Returned ())
      \<and> s = state_file w)"
proof -
  have t: "truthy (JDict kvs)"
    using map_of_nonempty [OF assms(2)] by simp
  show ?thesis
    unfolding upload_def ssh_run_def scp_to_instance_def emit_forms
    apply (rule fin_bnd_load)
    using assms t
    apply (simp add: pure_simps Let_def split del: if_split)
    apply ((rule fin_steps
            | (rule fin_bnd_run, simp add: SSH_OPTS_def)
            | simp add: pure_simps split del: if_split)+)
    done
qed

lemma download_spec:
  assumes "state_file w = Some (JDict kvs)" and "map_of kvs ''ip'' = Some ip"
  shows "finishes (download env filename) w (\<lambda>r n s. \<exists>c1 c2.
      n = map (\<lambda>e. (e, state_file w))
           [Mkdir LOCAL_WORK_DIR,
            Run ([S ''ssh''] @ SSH_OPTS @ [F [Lit ''root@'', Val ip],
                   S (''test -d '' @ REMOTE_WORK_DIR @ ''/'' @ filename @ '' && echo isdir'')])
                True c1,
            Print [Lit ''Downloading '', Lit (REMOTE_WORK_DIR @ ''/'' @ filename), Lit '' to '',
                   PathStr (LOCAL_WORK_DIR_slash filename), Lit ''...''],
            Run ([S ''scp''] @ SSH_OPTS @ (if contains (out c1) ''isdir'' then [S ''-r''] else [])
                 @ [F [Lit ''root@'', Val ip, Lit '':'',
                       Lit (REMOTE_WORK_DIR @ ''/'' @ filename)],
                    F [PathStr (LOCAL_WORK_DIR_slash filename)]]) False c2,
            Print (if rc c2 \<noteq> 0 then [Lit ''Download failed: '', Captured None]
                   else [Lit ''Download complete.''])]
      \<and> r = (if rc c2 \<noteq> 0 then Raised (SystemExit 1) else Returned ())
      \<and> s = state_file w)"
proof -
  have t: "truthy (JDict kvs)"
    using map_of_nonempty [OF assms(2)] by simp
  show ?thesis
    unfolding download_def ssh_run_def scp_from_instance_def emit_forms
    apply (rule fin_bnd_load)
    using assms t
    apply (simp add: pure_simps Let_def split del: if_split)
    apply ((rule fin_steps
            | (rule fin_bnd_run, simp add: SSH_OPTS_def)
            | simp add: pure_simps split del: if_split)+)
    done
qed

text \<open>
  C8. With a Lifecycle Record: \<^verbatim>\<open>upload\<close> of an existing local path asks whether the
  path is a directory and runs \<^verbatim>\<open>scp\<close> with \<^verbatim>\<open>-r\<close> exactly when the answer \<open>d\<close> is
  yes; \<^verbatim>\<open>download\<close> runs the remote directory test and runs \<^verbatim>\<open>scp\<close> with \<^verbatim>\<open>-r\<close>
  exactly when the test printed \<^verbatim>\<open>isdir\<close>; in both, a non-zero exit code of \<^verbatim>\<open>scp\<close>
  ends the command with exit status 1, and a zero one with status 0.
\<close>

theorem single_path_transfer:
  assumes "state_file w = Some (JDict kvs)" and "map_of kvs ''ip'' = Some ip"
  shows "(fs_exists env (trace w) (LOCAL_WORK_DIR_slash filename) \<longrightarrow>
      (\<exists>c1 d c2.
         trace (snd (upload env filename w)) = trace w @ map (\<lambda>e. (e, state_file w))
           [Exists (LOCAL_WORK_DIR_slash filename) True,
            Run ([S ''ssh''] @ SSH_OPTS @ [F [Lit ''root@'', Val ip],
                   S (''mkdir -p '' @ REMOTE_WORK_DIR)]) True c1,
            IsDir (LOCAL_WORK_DIR_slash filename) d,
            Print [Lit ''Uploading '', PathStr (LOCAL_WORK_DIR_slash filename), Lit '' to '',
                   Lit (REMOTE_WORK_DIR @ ''/'' @ filename), Lit ''...''],
            Run ([S ''scp''] @ SSH_OPTS @ (if d then [S ''-r''] else [])
                 @ [F [PathStr (LOCAL_WORK_DIR_slash filename)],
                    F [Lit ''root@'', Val ip, Lit '':'',
                       Lit (REMOTE_WORK_DIR @ ''/'' @ filename)]]) False c2,
            Print (if rc c2 \<noteq> 0 then [Lit ''Upload failed: '', Captured None]
                   else [Lit ''Upload complete.''])]
         \<and> exit_status (fst (upload env filename w)) = Some (if rc c2 \<noteq> 0 then 1 else 0)))
    \<and> (\<exists>c1 c2.
         trace (snd (download env filename w)) = trace w @ map (\<lambda>e. (e, state_file w))
           [Mkdir LOCAL_WORK_DIR,
            Run ([S ''ssh''] @ SSH_OPTS @ [F [Lit ''root@'', Val ip],
                   S (''test -d '' @ REMOTE_WORK_DIR @ ''/'' @ filename @ '' && echo isdir'')])
                True c1,
            Print [Lit ''Downloading '', Lit (REMOTE_WORK_DIR @ ''/'' @ filename), Lit '' to '',
                   PathStr (LOCAL_WORK_DIR_slash filename), Lit ''...''],
            Run ([S ''scp''] @ SSH_OPTS @ (if contains (out c1) ''isdir'' then [S ''-r''] else [])
                 @ [F [Lit ''root@'', Val ip, Lit '':'',
                       Lit (REMOTE_WORK_DIR @ ''/'' @ filename)],
                    F [PathStr (LOCAL_WORK_DIR_slash filename)]]) False c2,
            Print (if rc c2 \<noteq> 0 then [Lit ''Download failed: '', Captured None]
                   else [Lit ''Download complete.''])]
         \<and> exit_status (fst (download env filename w)) = Some (if rc c2 \<noteq> 0 then 1 else 0))"
proof (intro conjI impI)
  assume ex: "fs_exists env (trace w) (LOCAL_WORK_DIR_slash filename)"
  from upload_spec [OF assms ex] show "\<exists>c1 d c2.
         trace (snd (upload env filename w)) = trace w @ map (\<lambda>e. (e, state_file w))
           [Exists (LOCAL_WORK_DIR_slash filename) True,
            Run ([S ''ssh''] @ SSH_OPTS @ [F [Lit ''root@'', Val ip],
                   S (''mkdir -p '' @ REMOTE_WORK_DIR)]) True c1,
            IsDir (LOCAL_WORK_DIR_slash filename) d,
            Print [Lit ''Uploading '', PathStr (LOCAL_WORK_DIR_slash filename), Lit '' to '',
                   Lit (REMOTE_WORK_DIR @ ''/'' @ filename), Lit ''...''],
            Run ([S ''scp''] @ SSH_OPTS @ (if d then [S ''-r''] else [])
                 @ [F [PathStr (LOCAL_WORK_DIR_slash filename)],
                    F [Lit ''root@'', Val ip, Lit '':'',
                       Lit (REMOTE_WORK_DIR @ ''/'' @ filename)]]) False c2,
            Print (if rc c2 \<noteq> 0 then [Lit ''Upload failed: '', Captured None]
                   else [Lit ''Upload complete.''])]
         \<and> exit_status (fst (upload env filename w)) = Some (if rc c2 \<noteq> 0 then 1 else 0)"
    unfolding finishes_def
    apply (elim exE conjE)
    subgoal for new c1 d c2
      by (rule exI [of _ c1], rule exI [of _ d], rule exI [of _ c2]) simp
    done
next
  from download_spec [OF assms, where env = env and filename = filename] show "\<exists>c1 c2.
         trace (snd (download env filename w)) = trace w @ map (\<lambda>e. (e, state_file w))
           [Mkdir LOCAL_WORK_DIR,
            Run ([S ''ssh''] @ SSH_OPTS @ [F [Lit ''root@'', Val ip],
                   S (''test -d '' @ REMOTE_WORK_DIR @ ''/'' @ filename @ '' && echo isdir'')])
                True c1,
            Print [Lit ''Downloading '', Lit (REMOTE_WORK_DIR @ ''/'' @ filename), Lit '' to '',
                   PathStr (LOCAL_WORK_DIR_slash filename), Lit ''...''],
            Run ([S ''scp''] @ SSH_OPTS @ (if contains (out c1) ''isdir'' then [S ''-r''] else [])
                 @ [F [Lit ''root@'', Val ip, Lit '':'',
                       Lit (REMOTE_WORK_DIR @ ''/'' @ filename)],
                    F [PathStr (LOCAL_WORK_DIR_slash filename)]]) False c2,
            Print (if rc c2 \<noteq> 0 then [Lit ''Download failed: '', Captured None]
                   else [Lit ''Download complete.''])]
         \<and> exit_status (fst (download env filename w)) = Some (if rc c2 \<noteq> 0 then 1 else 0)"
    unfolding finishes_def
    apply (elim exE conjE)
    subgoal for new c1 c2
      by (rule exI [of _ c1], rule exI [of _ c2]) simp
    done
qed

theorem single_path_transfer_witness:
  "(fs_exists env_dirs (trace w_owned) (LOCAL_WORK_DIR_slash ''data'') \<and>
      (\<exists>c1 d c2.
         trace (snd (upload env_dirs ''data'' w_owned)) = trace w_owned @ map (\<lambda>e. (e, state_file w_owned))
           [Exists (LOCAL_WORK_DIR_slash ''data'') True,
            Run ([S ''ssh''] @ SSH_OPTS @ [F [Lit ''root@'', Val (JStr ''10.0.0.5'')],
                   S (''mkdir -p '' @ REMOTE_WORK_DIR)]) True c1,
            IsDir (LOCAL_WORK_DIR_slash ''data'') d,
            Print [Lit ''Uploading '', PathStr (LOCAL_WORK_DIR_slash ''data''), Lit '' to '',
                   Lit (REMOTE_WORK_DIR @ ''/'' @ ''data''), Lit ''...''],
            Run ([S ''scp''] @ SSH_OPTS @ (if d then [S ''-r''] else [])
                 @ [F [PathStr (LOCAL_WORK_DIR_slash ''data'')],
                    F [Lit ''root@'', Val (JStr ''10.0.0.5''), Lit '':'',
                       Lit (REMOTE_WORK_DIR @ ''/'' @ ''data'')]]) False c2,
            Print (if rc c2 \<noteq> 0 then [Lit ''Upload failed: '', Captured None]
                   else [Lit ''Upload complete.''])]
         \<and> exit_status (fst (upload env_dirs ''data'' w_owned)) = Some (if rc c2 \<noteq> 0 then 1 else 0)))
    \<and> (\<exists>c1 c2.
         trace (snd (download env_dirs ''data'' w_owned)) = trace w_owned @ map (\<lambda>e. (e, state_file w_owned))
           [Mkdir LOCAL_WORK_DIR,
            Run ([S ''ssh''] @ SSH_OPTS @ [F [Lit ''root@'', Val (JStr ''10.0.0.5'')],
                   S (''test -d '' @ REMOTE_WORK_DIR @ ''/'' @ ''data'' @ '' && echo isdir'')])
                True c1,
            Print [Lit ''Downloading '', Lit (REMOTE_WORK_DIR @ ''/'' @ ''data''), Lit '' to '',
                   PathStr (LOCAL_WORK_DIR_slash ''data''), Lit ''...''],
            Run ([S ''scp''] @ SSH_OPTS @ (if contains (out c1) ''isdir'' then [S ''-r''] else [])
                 @ [F [Lit ''root@'', Val (JStr ''10.0.0.5''), Lit '':'',
                       Lit (REMOTE_WORK_DIR @ ''/'' @ ''data'')],
                    F [PathStr (LOCAL_WORK_DIR_slash ''data'')]]) False c2,
            Print (if rc c2 \<noteq> 0 then [Lit ''Download failed: '', Captured None]
                   else [Lit ''Download complete.''])]
         \<and> exit_status (fst (download env_dirs ''data'' w_owned)) = Some (if rc c2 \<noteq> 0 then 1 else 0))"
  using single_path_transfer [of w_owned "[(''id'', JStr ''i-1''), (''ip'', JStr ''10.0.0.5'')]"
      "JStr ''10.0.0.5''" env_dirs "''data''"]
  by (simp add: w_owned_def env_dirs_def scripted_def)

subsection \<open>Teardown\<close>

lemma cleared_last_Nil [simp]: "\<not> cleared_last s []"
  by (simp add: cleared_last_def)

lemma cleared_last_single [simp]:
  "cleared_last s [x] = (x = (Print [Lit ''Instance deleted. State cleared.''], None))"
  by (auto simp: cleared_last_def)

lemma cleared_last_Cons [simp]:
  "cleared_last s (x # y # t) = (snd x = s \<and> cleared_last s (y # t))"
proof
  assume "cleared_last s (x # y # t)"
  then obtain m where m: "x # y # t = m @ [(Print [Lit ''Instance deleted. State cleared.''], None)]"
      "\<forall>z\<in>set m. snd z = s"
    by (auto simp: cleared_last_def)
  then obtain m' where "m = x # m'"
    by (cases m) auto
  with m show "snd x = s \<and> cleared_last s (y # t)"
    by (auto simp: cleared_last_def)
next
  assume "snd x = s \<and> cleared_last s (y # t)"
  then obtain m where "y # t = m @ [(Print [Lit ''Instance deleted. State cleared.''], None)]"
      "\<forall>z\<in>set m. snd z = s" "snd x = s"
    by (auto simp: cleared_last_def)
  then show "cleared_last s (x # y # t)"
    unfolding cleared_last_def by (intro exI [of _ "x # m"]) simp
qed

lemma cleared_last_Cons_nonempty:
  "ys \<noteq> [] \<Longrightarrow> cleared_last s (x # ys) = (snd x = s \<and> cleared_last s ys)"
  by (cases ys) simp_all

lemma cleared_last_append:
  "\<forall>x\<in>set n. snd x = s \<Longrightarrow> cleared_last s (n @ y # t) = cleared_last s (y # t)"
  by (induction n) (simp_all add: cleared_last_Cons_nonempty)


lemma polls_no_remote:
  "\<forall>x\<in>set n. \<not> is_remote_call (fst x) \<Longrightarrow> polls (S ''ssh'' # args) n = 0"
  by (induction "S ''ssh'' # args" n rule: polls.induct) auto

lemma download_work_dir_teardown:
  "finishes (download_work_dir env (JStr a)) w (\<lambda>r n s.
     r = Returned () \<and> s = state_file w
     \<and> (\<forall>x\<in>set n. snd x = state_file w)
     \<and> (\<forall>x\<in>set n. \<not> is_provider_call (fst x))
     \<and> polls ([S ''ssh''] @ SSH_OPTS @ [F [Lit ''root@'', Val (JStr a)],
                 S (''test -d '' @ REMOTE_WORK_DIR @ '' && echo exists'')]) n = 1)"
  unfolding download_work_dir_def ssh_run_def scp_from_instance_def emit_forms
  by ((rule fin_steps | (rule fin_bnd_run, simp add: SSH_OPTS_def)
       | simp add: pure_simps split del: if_split)+)

lemma remove_from_known_hosts_teardown:
  "finishes (remove_from_known_hosts env (JStr a)) w (\<lambda>r n s.
     r = Returned () \<and> s = state_file w
     \<and> (\<forall>x\<in>set n. snd x = state_file w)
     \<and> (\<forall>x\<in>set n. \<not> is_provider_call (fst x))
     \<and> (\<forall>x\<in>set n. \<not> is_remote_call (fst x)))"
  unfolding remove_from_known_hosts_def emit_forms
  by ((rule fin_steps | (rule fin_bnd_run, simp add: SSH_OPTS_def)
       | simp add: pure_simps split del: if_split)+)

lemma cleared_lastD:
  "cleared_last s n \<Longrightarrow>
   \<exists>m. n = m @ [(Print [Lit ''Instance deleted. State cleared.''], None)]
       \<and> (\<forall>x\<in>set m. snd x = s)"
  unfolding cleared_last_def by assumption

lemma stop_teardown_with_address:
  assumes "state_file w = Some (JDict kvs)"
    and "map_of kvs ''id'' = Some (JStr i)"
    and "get_default (JDict kvs) ''ip'' JNull = Inr ip"
    and "ip = JStr a" "a \<noteq> []"
  shows "finishes (stop env) w (\<lambda>r n s. r = Returned () \<and> s = None
     \<and> cleared_last (state_file w) n
     \<and> (truthy ip \<longrightarrow>
          polls ([S ''ssh''] @ SSH_OPTS @ [F [Lit ''root@'', Val ip],
                   S (''test -d '' @ REMOTE_WORK_DIR @ '' && echo exists'')]) n = 1)
     \<and> polls [S ''scw'', S ''instance'', S ''server'', S ''stop'', V (JStr i),
               S (''zone='' @ ZONE), S ''--wait''] n = 1
     \<and> polls [S ''scw'', S ''instance'', S ''server'', S ''delete'', V (JStr i),
               S (''zone='' @ ZONE), S ''with-ip=true'', S ''with-volumes=local''] n = 1)"
proof -
  have t: "truthy (JDict kvs)"
    using map_of_nonempty [OF assms(2)] by simp
  show ?thesis
      unfolding stop_def scw_def emit_forms
      apply (rule fin_bnd_load)
      using assms t
      apply (simp add: pure_simps andthen_if split del: if_split)
      apply ((rule fin_steps fin_andthen [OF download_work_dir_teardown]
                fin_andthen [OF remove_from_known_hosts_teardown]
              | (rule fin_bnd_run, simp)
              | (rule fin_andthen_act, simp)
              | simp add: pure_simps andthen_if cleared_last_append cleared_last_Cons_nonempty
                  split del: if_split
              | simp add: polls_no_provider polls_no_remote)+)
      done
qed

lemma stop_teardown_without_address:
  assumes "state_file w = Some (JDict kvs)"
    and "map_of kvs ''id'' = Some (JStr i)"
    and "get_default (JDict kvs) ''ip'' JNull = Inr ip"
    and "\<not> truthy ip"
  shows "finishes (stop env) w (\<lambda>r n s. r = Returned () \<and> s = None
     \<and> cleared_last (state_file w) n
     \<and> (truthy ip \<longrightarrow>
          polls ([S ''ssh''] @ SSH_OPTS @ [F [Lit ''root@'', Val ip],
                   S (''test -d '' @ REMOTE_WORK_DIR @ '' && echo exists'')]) n = 1)
     \<and> polls [S ''scw'', S ''instance'', S ''server'', S ''stop'', V (JStr i),
               S (''zone='' @ ZONE), S ''--wait''] n = 1
     \<and> polls [S ''scw'', S ''instance'', S ''server'', S ''delete'', V (JStr i),
               S (''zone='' @ ZONE), S ''with-ip=true'', S ''with-volumes=local''] n = 1)"
proof -
  have t: "truthy (JDict kvs)"
    using map_of_nonempty [OF assms(2)] by simp
  show ?thesis
      unfolding stop_def scw_def emit_forms
      apply (rule fin_bnd_load)
      using assms t
      apply (simp add: pure_simps andthen_if split del: if_split)
      apply ((rule fin_steps
              | (rule fin_bnd_run, simp)
              | (rule fin_andthen_act, simp)
              | simp add: pure_simps andthen_if cleared_last_append cleared_last_Cons_nonempty
                  split del: if_split)+)
      done
qed

lemma stop_teardown:
  assumes "state_file w = Some (JDict kvs)"
    and "map_of kvs ''id'' = Some (JStr i)"
    and "get_default (JDict kvs) ''ip'' JNull = Inr ip"
    and "\<not> truthy ip \<or> (\<exists>a. ip = JStr a)"
  shows "finishes (stop env) w (\<lambda>r n s. r = Returned () \<and> s = None
     \<and> cleared_last (state_file w) n
     \<and> (truthy ip \<longrightarrow>
          polls ([S ''ssh''] @ SSH_OPTS @ [F [Lit ''root@'', Val ip],
                   S (''test -d '' @ REMOTE_WORK_DIR @ '' && echo exists'')]) n = 1)
     \<and> polls [S ''scw'', S ''instance'', S ''server'', S ''stop'', V (JStr i),
               S (''zone='' @ ZONE), S ''--wait''] n = 1
     \<and> polls [S ''scw'', S ''instance'', S ''server'', S ''delete'', V (JStr i),
               S (''zone='' @ ZONE), S ''with-ip=true'', S ''with-volumes=local''] n = 1)"
proof (cases "truthy ip")
  case True
  with assms(4) obtain a where a: "ip = JStr a"
    by blast
  with True have "a \<noteq> []"
    by simp
  show ?thesis
    by (rule stop_teardown_with_address [OF assms(1-3) a \<open>a \<noteq> []\<close>])
next
  case False
  show ?thesis
    by (rule stop_teardown_without_address [OF assms(1-3) False])
qed

text \<open>
  C3. If a Lifecycle Record exists (the identifier is a string; the address is a string,
  or is missing or falsy), \<^verbatim>\<open>stop\<close> returns and no record exists afterwards, whatever
  the environment answers to the download, to the provider stop and to the provider
  delete. The deletion is the last step of the teardown: the download probe (when the
  address is known), the provider stop and the provider delete all happen, once each,
  while the record is still on disk, and the only event after the deletion is the
  closing message. As everywhere in this model, \<^verbatim>\<open>subprocess.run\<close> and
  \<^verbatim>\<open>Path.mkdir\<close> are taken to return.
\<close>

theorem stop_clears_record:
  assumes "state_file w = Some (JDict kvs)"
    and "map_of kvs ''id'' = Some (JStr i)"
    and "get_default (JDict kvs) ''ip'' JNull = Inr ip"
    and "\<not> truthy ip \<or> (\<exists>a. ip = JStr a)"
  shows "fst (stop env w) = Returned () \<and> state_file (snd (stop env w)) = None
     \<and> (\<exists>n. trace (snd (stop env w))
               = trace w @ n @ [(Print [Lit ''Instance deleted. State cleared.''], None)]
          \<and> (\<forall>x\<in>set n. snd x = state_file w)
          \<and> (truthy ip \<longrightarrow>
               polls ([S ''ssh''] @ SSH_OPTS @ [F [Lit ''root@'', Val ip],
                        S (''test -d '' @ REMOTE_WORK_DIR @ '' && echo exists'')]) n = 1)
          \<and> polls [S ''scw'', S ''instance'', S ''server'', S ''stop'', V (JStr i),
                    S (''zone='' @ ZONE), S ''--wait''] n = 1
          \<and> polls [S ''scw'', S ''instance'', S ''server'', S ''delete'', V (JStr i),
                    S (''zone='' @ ZONE), S ''with-ip=true'', S ''with-volumes=local''] n = 1)"
proof -
  from stop_teardown [OF assms, of env] obtain new where new:
    "trace (snd (stop env w)) = trace w @ new"
    "fst (stop env w) = Returned ()" "state_file (snd (stop env w)) = None"
    "cleared_last (state_file w) new"
    "truthy ip \<longrightarrow>
          polls ([S ''ssh''] @ SSH_OPTS @ [F [Lit ''root@'', Val ip],
                   S (''test -d '' @ REMOTE_WORK_DIR @ '' && echo exists'')]) new = 1"
    "polls [S ''scw'', S ''instance'', S ''server'', S ''stop'', V (JStr i),
               S (''zone='' @ ZONE), S ''--wait''] new = 1"
    "polls [S ''scw'', S ''instance'', S ''server'', S ''delete'', V (JStr i),
               S (''zone='' @ ZONE), S ''with-ip=true'', S ''with-volumes=local''] new = 1"
    unfolding finishes_def by blast
  from cleared_lastD [OF new(4)] obtain m where m:
    "new = m @ [(Print [Lit ''Instance deleted. State cleared.''], None)]"
    "\<forall>x\<in>set m. snd x = state_file w"
    by blast
  show ?thesis
    using new(1-3,5-7) m by (intro conjI exI [of _ m]) simp_all
qed

theorem stop_clears_record_witness:
  "fst (stop env_failing w_owned) = Returned () \<and> state_file (snd (stop env_failing w_owned)) = None
     \<and> (\<exists>n. trace (snd (stop env_failing w_owned))
               = trace w_owned @ n @ [(Print [Lit ''Instance deleted. State cleared.''], None)]
          \<and> (\<forall>x\<in>set n. snd x = state_file w_owned)
          \<and> (truthy (JStr ''10.0.0.5'') \<longrightarrow>
               polls ([S ''ssh''] @ SSH_OPTS @ [F [Lit ''root@'', Val (JStr ''10.0.0.5'')],
                        S (''test -d '' @ REMOTE_WORK_DIR @ '' && echo exists'')]) n = 1)
          \<and> polls [S ''scw'', S ''instance'', S ''server'', S ''stop'', V (JStr ''i-1''),
                    S (''zone='' @ ZONE), S ''--wait''] n = 1
          \<and> polls [S ''scw'', S ''instance'', S ''server'', S ''delete'', V (JStr ''i-1''),
                    S (''zone='' @ ZONE), S ''with-ip=true'', S ''with-volumes=local''] n = 1)"
  using stop_clears_record [of w_owned "[(''id'', JStr ''i-1''), (''ip'', JStr ''10.0.0.5'')]"
      "''i-1''" "JStr ''10.0.0.5''" env_failing]
  by (simp add: w_owned_def)

lemma stop_order:
  assumes "state_file w = Some (JDict kvs)"
    and "map_of kvs ''id'' = Some (JStr i)" and "map_of kvs ''ip'' = Some (JStr a)"
    and "a \<noteq> []"
  shows "finishes (stop env) w (\<lambda>r n s. \<exists>dl tl. n = dl @ tl
     \<and> trace (snd (download_work_dir env (JStr a) w)) = trace w @ dl
     \<and> polls ([S ''ssh''] @ SSH_OPTS @ [F [Lit ''root@'', Val (JStr a)],
                 S (''test -d '' @ REMOTE_WORK_DIR @ '' && echo exists'')]) dl = 1
     \<and> (\<forall>x\<in>set dl. \<not> is_provider_call (fst x))
     \<and> (\<forall>x\<in>set tl. \<not> is_remote_call (fst x))
     \<and> polls [S ''scw'', S ''instance'', S ''server'', S ''stop'', V (JStr i),
               S (''zone='' @ ZONE), S ''--wait''] tl = 1
     \<and> polls [S ''scw'', S ''instance'', S ''server'', S ''delete'', V (JStr i),
               S (''zone='' @ ZONE), S ''with-ip=true'', S ''with-volumes=local''] tl = 1)"
proof -
  have t: "truthy (JDict kvs)"
    using map_of_nonempty [OF assms(2)] by simp
  show ?thesis
    unfolding stop_def scw_def emit_forms
    apply (rule fin_bnd_load)
    using assms t
    apply (simp add: pure_simps split del: if_split)
    apply (rule fin_andthen [OF fin_link [OF download_work_dir_spec]])
      apply (rule fin_weaken [where P = "\<lambda>r n s.
          (\<forall>x\<in>set n. \<not> is_remote_call (fst x))
        \<and> polls [S ''scw'', S ''instance'', S ''server'', S ''stop'', V (JStr i),
                  S (''zone='' @ ZONE), S ''--wait''] n = 1
        \<and> polls [S ''scw'', S ''instance'', S ''server'', S ''delete'', V (JStr i),
                  S (''zone='' @ ZONE), S ''with-ip=true'', S ''with-volumes=local''] n = 1"])
       apply ((rule fin_steps fin_andthen [OF remove_from_known_hosts_spec]
            | (rule fin_bnd_run, simp)
            | (rule fin_andthen_act, simp)
            | simp add: pure_simps andthen_if polls_no_provider split del: if_split)+)[1]
      apply (rule exI, rule exI, rule conjI, rule refl)
      apply (simp add: SSH_OPTS_def)
     apply simp
    apply simp
    done
qed

text \<open>
  C4. If the Lifecycle Record holds a known (non-empty) address, the log of \<^verbatim>\<open>stop\<close> is
  the whole log of the bulk download followed by a tail: the download part holds the
  remote directory test (once) and no provider call; the tail holds the provider stop
  and the provider delete (once each) and no \<^verbatim>\<open>ssh\<close> or \<^verbatim>\<open>scp\<close> command. This holds
  for every answer of the environment, so for every outcome of the download.
\<close>

theorem stop_downloads_before_destroying:
  assumes "state_file w = Some (JDict kvs)"
    and "map_of kvs ''id'' = Some (JStr i)" and "map_of kvs ''ip'' = Some (JStr a)"
    and "a \<noteq> []"
  shows "\<exists>dl tl. trace (snd (stop env w)) = trace w @ dl @ tl
     \<and> trace (snd (download_work_dir env (JStr a) w)) = trace w @ dl
     \<and> polls ([S ''ssh''] @ SSH_OPTS @ [F [Lit ''root@'', Val (JStr a)],
                 S (''test -d '' @ REMOTE_WORK_DIR @ '' && echo exists'')]) dl = 1
     \<and> (\<forall>x\<in>set dl. \<not> is_provider_call (fst x))
     \<and> (\<forall>x\<in>set tl. \<not> is_remote_call (fst x))
     \<and> polls [S ''scw'', S ''instance'', S ''server'', S ''stop'', V (JStr i),
               S (''zone='' @ ZONE), S ''--wait''] tl = 1
     \<and> polls [S ''scw'', S ''instance'', S ''server'', S ''delete'', V (JStr i),
               S (''zone='' @ ZONE), S ''with-ip=true'', S ''with-volumes=local''] tl = 1"
  using stop_order [OF assms, of env] unfolding finishes_def by blast

theorem stop_downloads_before_destroying_witness:
  "\<exists>dl tl. trace (snd (stop env_dirs w_owned)) = trace w_owned @ dl @ tl
     \<and> trace (snd (download_work_dir env_dirs (JStr ''10.0.0.5'') w_owned)) = trace w_owned @ dl
     \<and> polls ([S ''ssh''] @ SSH_OPTS @ [F [Lit ''root@'', Val (JStr ''10.0.0.5'')],
                 S (''test -d '' @ REMOTE_WORK_DIR @ '' && echo exists'')]) dl = 1
     \<and> (\<forall>x\<in>set dl. \<not> is_provider_call (fst x))
     \<and> (\<forall>x\<in>set tl. \<not> is_remote_call (fst x))
     \<and> polls [S ''scw'', S ''instance'', S ''server'', S ''stop'', V (JStr ''i-1''),
               S (''zone='' @ ZONE), S ''--wait''] tl = 1
     \<and> polls [S ''scw'', S ''instance'', S ''server'', S ''delete'', V (JStr ''i-1''),
               S (''zone='' @ ZONE), S ''with-ip=true'', S ''with-volumes=local''] tl = 1"
  using stop_downloads_before_destroying [of w_owned
      "[(''id'', JStr ''i-1''), (''ip'', JStr ''10.0.0.5'')]" "''i-1''" "''10.0.0.5''" env_dirs]
  by (simp add: w_owned_def)

subsection \<open>Polling\<close>

lemmas run_defs = seq_defs io_defs mock_defs get_instance_state_def get_instance_ip_def
  wait_for_running_def wait_for_ip_def wait_for_ssh_def json_loads_def
  cmd_get_def cmd_ip_list_def cmd_ssh_def cmd_create_def ZONE_def

lemma get_instance_state_reports:
  assumes "reports_state (respond env (trace w) (cmd_get i)) st"
  shows "get_instance_state env (JStr i) w =
     (Returned (JStr st), emit (Run (cmd_get i) True (respond env (trace w) (cmd_get i))) w)"
  using assms
  by (auto simp: get_instance_state_def scw_def run_def bnd_def pure_def json_loads_def
      reports_state_def cmd_get_def Let_def split: option.splits json.splits)

lemma loop_polls:
  assumes "\<And>t k. polls (cmd_get i) t = polls (cmd_get i) (trace w) + k \<Longrightarrow> k < N \<Longrightarrow>
              reports_state (respond env t (cmd_get i)) ''pending''"
    and "\<And>t. polls (cmd_get i) t = polls (cmd_get i) (trace w) + N \<Longrightarrow>
              reports_state (respond env t (cmd_get i)) ''running''"
    and "N < patience"
  shows "finishes (wait_for_running_loop patience env (JStr i)) w (\<lambda>r n s.
     r = Returned () \<and> s = state_file w \<and> polls (cmd_get i) n = Suc N
     \<and> ticks (cmd_get i) n = concat (replicate N [Query, Nap 5]) @ [Query])"
  using assms
proof (induction N arbitrary: patience w)
  case 0
  then obtain p where p: "patience = Suc p"
    by (cases patience) auto
  have "reports_state (respond env (trace w) (cmd_get i)) ''running''"
    using 0(2) [of "trace w"] by simp
  from get_instance_state_reports [OF this] show ?case
    by (simp add: p finishes_def bnd_def act_def print_def)
next
  case (Suc N)
  then obtain p where p: "patience = Suc p" and Np: "N < p"
    by (cases patience) auto
  let ?r = "respond env (trace w) (cmd_get i)"
  let ?w2 = "sleep 5 (print_noend [Lit ''.''] (emit (Run (cmd_get i) True ?r) w))"
  have "reports_state ?r ''pending''"
    using Suc.prems(1) [of "trace w" 0] by simp
  from get_instance_state_reports [OF this]
  have step: "wait_for_running_loop patience env (JStr i) w
            = wait_for_running_loop p env (JStr i) ?w2"
    by (simp add: p bnd_def andthen_def act_def)
  have tr: "trace ?w2 = trace w @ [(Run (cmd_get i) True ?r, state_file w),
                                  (PrintNoEnd [Lit ''.''], state_file w),
                                  (Sleep 5, state_file w)]"
    by (simp add: sleep_def print_noend_def)
  have sf: "state_file ?w2 = state_file w"
    by (simp add: sleep_def print_noend_def)
  have pl: "polls (cmd_get i) (trace ?w2) = Suc (polls (cmd_get i) (trace w))"
    by (simp add: tr)
  have "finishes (wait_for_running_loop p env (JStr i)) ?w2 (\<lambda>r n s.
     r = Returned () \<and> s = state_file ?w2 \<and> polls (cmd_get i) n = Suc N
     \<and> ticks (cmd_get i) n = concat (replicate N [Query, Nap 5]) @ [Query])"
  proof (rule Suc.IH [OF _ _ Np])
    fix t k
    assume "polls (cmd_get i) t = polls (cmd_get i) (trace ?w2) + k" "k < N"
    then show "reports_state (respond env t (cmd_get i)) ''pending''"
      using Suc.prems(1) [of t "Suc k"] pl by simp
  next
    fix t
    assume "polls (cmd_get i) t = polls (cmd_get i) (trace ?w2) + N"
    then show "reports_state (respond env t (cmd_get i)) ''running''"
      using Suc.prems(2) [of t] pl by simp
  qed
  then show ?case
    unfolding finishes_def step by (auto simp: tr sf)
qed

text \<open>
  C6. For every \<open>N\<close>: if the provider answers "pending" to the first \<open>N\<close> power-state
  queries of the loop and "running" to the next one, then, for every patience greater
  than \<open>N\<close>, \<^verbatim>\<open>wait_for_running\<close> returns after exactly \<open>N + 1\<close> queries, with one
  sleep of 5 between consecutive queries. The bound is the operator's patience alone:
  the statement holds for every \<open>N\<close>.
\<close>

theorem wait_for_running_polls_until_running:
  assumes "\<And>t k. polls (cmd_get i) t = polls (cmd_get i) (trace w) + k \<Longrightarrow> k < N \<Longrightarrow>
              reports_state (respond env t (cmd_get i)) ''pending''"
    and "\<And>t. polls (cmd_get i) t = polls (cmd_get i) (trace w) + N \<Longrightarrow>
              reports_state (respond env t (cmd_get i)) ''running''"
    and "N < patience"
  shows "fst (wait_for_running patience env (JStr i) w) = Returned ()
     \<and> (\<exists>n. trace (snd (wait_for_running patience env (JStr i) w)) = trace w @ n
          \<and> polls (cmd_get i) n = N + 1
          \<and> ticks (cmd_get i) n = concat (replicate N [Query, Nap 5]) @ [Query])"
proof -
  let ?w1 = "print_noend [Lit ''Waiting for instance to start''] w"
  have tr: "trace ?w1 = trace w @ [(PrintNoEnd [Lit ''Waiting for instance to start''], state_file w)]"
    by (simp add: print_noend_def)
  have "finishes (wait_for_running_loop patience env (JStr i)) ?w1 (\<lambda>r n s.
     r = Returned () \<and> s = state_file ?w1 \<and> polls (cmd_get i) n = Suc N
     \<and> ticks (cmd_get i) n = concat (replicate N [Query, Nap 5]) @ [Query])"
    by (rule loop_polls) (use assms in \<open>simp_all add: tr\<close>)
  then show ?thesis
    by (auto simp: finishes_def wait_for_running_def andthen_def bnd_def act_def tr)
qed

theorem wait_for_running_polls_until_running_witness:
  "fst (wait_for_running 3 env_e2e (JStr ''i-1'') w_fresh) = Returned ()
     \<and> (\<exists>n. trace (snd (wait_for_running 3 env_e2e (JStr ''i-1'') w_fresh)) = trace w_fresh @ n
          \<and> polls (cmd_get ''i-1'') n = 2 + 1
          \<and> ticks (cmd_get ''i-1'') n = concat (replicate 2 [Query, Nap 5]) @ [Query])"
proof (rule wait_for_running_polls_until_running)
  fix t k
  assume "polls (cmd_get ''i-1'') t = polls (cmd_get ''i-1'') (trace w_fresh) + k" "k < 2"
  then show "reports_state (respond env_e2e t (cmd_get ''i-1'')) ''pending''"
    by (simp add: env_e2e_def scripted_def script_e2e_def reports_state_def json_reply_def
        cmd_get_def cmd_create_def w_fresh_def)
next
  fix t
  assume "polls (cmd_get ''i-1'') t = polls (cmd_get ''i-1'') (trace w_fresh) + 2"
  then show "reports_state (respond env_e2e t (cmd_get ''i-1'')) ''running''"
    by (simp add: env_e2e_def scripted_def script_e2e_def reports_state_def json_reply_def
        cmd_get_def cmd_create_def w_fresh_def)
qed simp

text \<open>
  C5 fails for the power-state loop. When the power-state query fails at the transport
  level (exit code 1, nothing on standard output), \<^verbatim>\<open>get_instance_state\<close> does not look
  at the exit code and \<^verbatim>\<open>json.loads\<close> raises: the loop ends with the exception after
  one query, without sleeping. The two other loops, in the same environment, sleep and
  retry until they are interrupted.
\<close>

theorem power_state_poll_raises_on_transport_error:
  "fst (wait_for_running 3 env_failing (JStr ''i-1'') w_fresh) = Raised JSONDecodeError
   \<and> ticks (cmd_get ''i-1'') (trace (snd (wait_for_running 3 env_failing (JStr ''i-1'') w_fresh)))
       = [Query]
   \<and> fst (wait_for_ip 3 env_failing (JStr ''i-1'') w_fresh) = Interrupted
   \<and> ticks cmd_ip_list (trace (snd (wait_for_ip 3 env_failing (JStr ''i-1'') w_fresh)))
       = [Query, Nap 5, Query, Nap 5, Query, Nap 5]
   \<and> fst (wait_for_ssh 3 env_failing (JStr ''10.0.0.5'') w_fresh) = Interrupted
   \<and> ticks (cmd_ssh ''10.0.0.5'' ''echo ok'')
        (trace (snd (wait_for_ssh 3 env_failing (JStr ''10.0.0.5'') w_fresh)))
       = [Query, Nap 5, Query, Nap 5, Query, Nap 5]"
  by (simp add: run_defs env_failing_def w_fresh_def eval_nat_numeral)

subsection \<open>Provisioning\<close>

lemma get_instance_state_pre:
  "state_file w = None \<Longrightarrow>
   finishes (get_instance_state env iid) w (\<lambda>r n s. s = None \<and> guarded n)"
  unfolding get_instance_state_def scw_def emit_forms
  by ((rule fin_steps fin_bnd_run_any fin_bnd_pure fin_pure
       | simp add: pure_simps split del: if_split)+)



lemma wait_for_running_loop_pre:
  "state_file w = None \<Longrightarrow>
   finishes (wait_for_running_loop p env iid) w (\<lambda>r n s. s = None \<and> guarded n)"
proof (induction p arbitrary: w)
  case 0
  then show ?case by (simp add: finishes_def)
next
  case (Suc p)
  show ?case
    unfolding wait_for_running_loop.simps emit_forms
    apply (rule fin_bnd [OF get_instance_state_pre [OF Suc.prems]])
      apply ((rule fin_steps fin_weaken [OF Suc.IH]
       | simp add: pure_simps split del: if_split)+)
    done
qed


lemma wait_for_running_pre:
  "state_file w = None \<Longrightarrow>
   finishes (wait_for_running p env iid) w (\<lambda>r n s. s = None \<and> guarded n)"
  unfolding wait_for_running_def emit_forms
  by ((rule fin_steps fin_weaken [OF wait_for_running_loop_pre]
       | simp add: pure_simps split del: if_split)+)


lemma get_instance_ip_pre:
  "state_file w = None \<Longrightarrow>
   finishes (get_instance_ip env iid) w (\<lambda>r n s. s = None \<and> guarded n)"
  unfolding get_instance_ip_def scw_def emit_forms
  by ((rule fin_steps fin_bnd_run_any fin_bnd_pure fin_pure
       | simp add: pure_simps split del: if_split)+)


lemma wait_for_ip_loop_pre:
  "state_file w = None \<Longrightarrow>
   finishes (wait_for_ip_loop p env iid) w (\<lambda>r n s. s = None \<and> guarded n)"
proof (induction p arbitrary: w)
  case 0
  then show ?case by (simp add: finishes_def)
next
  case (Suc p)
  show ?case
    unfolding wait_for_ip_loop.simps emit_forms
    apply (rule fin_bnd [OF get_instance_ip_pre [OF Suc.prems]])
      apply ((rule fin_steps fin_weaken [OF Suc.IH]
       | simp add: pure_simps split del: if_split)+)
    done
qed


lemma wait_for_ip_pre:
  "state_file w = None \<Longrightarrow>
   finishes (wait_for_ip p env iid) w (\<lambda>r n s. s = None \<and> guarded n)"
  unfolding wait_for_ip_def emit_forms
  by ((rule fin_steps fin_weaken [OF wait_for_ip_loop_pre]
       | simp add: pure_simps split del: if_split)+)


lemma remove_from_known_hosts_pre:
  "state_file w = None \<Longrightarrow>
   finishes (remove_from_known_hosts env ip) w (\<lambda>r n s. s = None \<and> guarded n)"
  unfolding remove_from_known_hosts_def emit_forms
  by ((rule fin_steps fin_bnd_run_any
       | simp add: pure_simps split del: if_split)+)


text \<open>Steps that run after the record is saved: they call no provider and keep the record.\<close>


lemma upload_work_dir_post:
  "is_record (state_file w) \<Longrightarrow>
   finishes (upload_work_dir env ip) w (\<lambda>r n s. s = state_file w \<and> guarded n)"
  unfolding upload_work_dir_def ssh_run_def scp_to_instance_def emit_forms
  by ((rule fin_steps | (rule fin_bnd_run, simp add: SSH_OPTS_def)
       | simp add: pure_simps split del: if_split)+)


lemma start_ssh_tunnel_post:
  "is_record (state_file w) \<Longrightarrow>
   finishes (act (start_ssh_tunnel env ip)) w (\<lambda>r n s. s = state_file w \<and> guarded n)"
  by (simp add: finishes_def act_def start_ssh_tunnel_def Let_def emit_forms SSH_OPTS_def)





lemma wait_for_ssh_loop_post:
  "is_record (state_file w) \<Longrightarrow>
   finishes (wait_for_ssh_loop p env ip) w (\<lambda>r n s. s = state_file w \<and> guarded n)"
proof (induction p arbitrary: w)
  case 0
  then show ?case by (simp add: finishes_def)
next
  case (Suc p)
  show ?case
    unfolding wait_for_ssh_loop.simps ssh_run_def emit_forms
    apply (rule fin_bnd_run, simp add: SSH_OPTS_def)
    apply (rule fin_if)
    apply (rule fin_emit)
    using Suc.prems apply (simp add: SSH_OPTS_def)
    apply (rule fin_andthen_emit)
    apply (rule fin_andthen_emit)
    apply (rule fin_weaken [OF Suc.IH])
    using Suc.prems apply simp
    using Suc.prems apply (simp add: SSH_OPTS_def)
    done
qed


lemma wait_for_ssh_post:
  "is_record (state_file w) \<Longrightarrow>
   finishes (wait_for_ssh p env ip) w (\<lambda>r n s. s = state_file w \<and> guarded n)"
  unfolding wait_for_ssh_def emit_forms
  by ((rule fin_steps fin_weaken [OF wait_for_ssh_loop_post]
       | simp add: pure_simps split del: if_split)+)

lemma start_guarded:
  assumes "state_file w = None"
  shows "finishes (start patience env) w (\<lambda>r n s. guarded n)"
  unfolding start_def scw_def ssh_run_def emit_forms
  apply (rule fin_bnd_load)
  using assms
  apply (simp add: pure_simps split del: if_split)
  apply (rule fin_andthen_emit)
  apply (rule fin_bnd_run, simp)
  apply (rule fin_if)
   apply ((rule fin_steps | simp add: pure_simps split del: if_split)+)[1]
  apply (rule fin_bnd_pure)
   apply (rule fin_bnd_pure)
    apply (rule fin_andthen_emit)
    apply (rule fin_andthen [OF wait_for_running_pre])
       apply simp
      apply (rule fin_bnd [OF wait_for_ip_pre])
         apply simp
        apply (rule fin_andthen [OF remove_from_known_hosts_pre])
           apply simp
          apply (rule fin_andthen_act, simp)
          apply (rule fin_andthen [OF wait_for_ssh_post])
             apply simp
            apply (rule fin_andthen [OF upload_work_dir_post])
               apply simp
              apply (rule fin_andthen_emit)
              apply (rule fin_bnd_run, simp add: SSH_OPTS_def)
              apply (rule fin_if)
               apply ((rule fin_steps | simp add: pure_simps split del: if_split)+)[1]
              apply (simp add: pure_simps Let_def andthen_if split del: if_split)
              apply ((rule fin_steps fin_weaken [OF start_ssh_tunnel_post]
                      | simp add: pure_simps split del: if_split)+)[1]
             apply simp_all
  done

text \<open>
  Steps that run before the record is saved reach the instance with no command and do not
  touch the state file; steps that run after it call no provider and do not touch it
  either.
\<close>

lemma get_instance_state_unsaved:
  "finishes (get_instance_state env iid) w (\<lambda>r n s.
     s = state_file w \<and> (\<forall>x\<in>set n. snd x = state_file w \<and> \<not> is_remote_call (fst x)))"
  unfolding get_instance_state_def scw_def emit_forms
  by ((rule fin_steps fin_bnd_run_any fin_bnd_pure fin_pure
       | simp add: pure_simps ball_Un split del: if_split)+)

lemma wait_for_running_loop_unsaved:
  "finishes (wait_for_running_loop p env iid) w (\<lambda>r n s.
     s = state_file w \<and> (\<forall>x\<in>set n. snd x = state_file w \<and> \<not> is_remote_call (fst x)))"
proof (induction p arbitrary: w)
  case 0
  then show ?case by (simp add: finishes_def)
next
  case (Suc p)
  show ?case
    unfolding wait_for_running_loop.simps emit_forms
    apply (rule fin_bnd [OF get_instance_state_unsaved])
      apply ((rule fin_steps fin_weaken [OF Suc.IH]
       | simp add: pure_simps ball_Un split del: if_split)+)
    done
qed

lemma wait_for_running_unsaved:
  "finishes (wait_for_running p env iid) w (\<lambda>r n s.
     s = state_file w \<and> (\<forall>x\<in>set n. snd x = state_file w \<and> \<not> is_remote_call (fst x)))"
  unfolding wait_for_running_def emit_forms
  by ((rule fin_steps fin_weaken [OF wait_for_running_loop_unsaved]
       | simp add: pure_simps ball_Un split del: if_split)+)

lemma get_instance_ip_unsaved:
  "finishes (get_instance_ip env iid) w (\<lambda>r n s.
     s = state_file w \<and> (\<forall>x\<in>set n. snd x = state_file w \<and> \<not> is_remote_call (fst x)))"
  unfolding get_instance_ip_def scw_def emit_forms
  by ((rule fin_steps fin_bnd_run_any fin_bnd_pure fin_pure
       | simp add: pure_simps ball_Un split del: if_split)+)

lemma wait_for_ip_loop_unsaved:
  "finishes (wait_for_ip_loop p env iid) w (\<lambda>r n s.
     s = state_file w \<and> (\<forall>x\<in>set n. snd x = state_file w \<and> \<not> is_remote_call (fst x)))"
proof (induction p arbitrary: w)
  case 0
  then show ?case by (simp add: finishes_def)
next
  case (Suc p)
  show ?case
    unfolding wait_for_ip_loop.simps emit_forms
    apply (rule fin_bnd [OF get_instance_ip_unsaved])
      apply ((rule fin_steps fin_weaken [OF Suc.IH]
       | simp add: pure_simps ball_Un split del: if_split)+)
    done
qed

lemma wait_for_ip_unsaved:
  "finishes (wait_for_ip p env iid) w (\<lambda>r n s.
     s = state_file w \<and> (\<forall>x\<in>set n. snd x = state_file w \<and> \<not> is_remote_call (fst x)))"
  unfolding wait_for_ip_def emit_forms
  by ((rule fin_steps fin_weaken [OF wait_for_ip_loop_unsaved]
       | simp add: pure_simps ball_Un split del: if_split)+)

lemma upload_work_dir_saved:
  "finishes (upload_work_dir env ip) w (\<lambda>r n s.
     s = state_file w \<and> (\<forall>x\<in>set n. snd x = state_file w \<and> \<not> is_provider_call (fst x)))"
  unfolding upload_work_dir_def ssh_run_def scp_to_instance_def emit_forms
  by ((rule fin_steps | (rule fin_bnd_run, simp add: SSH_OPTS_def)
       | simp add: pure_simps ball_Un split del: if_split)+)

lemma start_ssh_tunnel_saved:
  "finishes (act (start_ssh_tunnel env ip)) w (\<lambda>r n s.
     s = state_file w \<and> (\<forall>x\<in>set n. snd x = state_file w \<and> \<not> is_provider_call (fst x)))"
  by (simp add: finishes_def act_def start_ssh_tunnel_def Let_def emit_forms SSH_OPTS_def)

lemma wait_for_ssh_loop_saved:
  "finishes (wait_for_ssh_loop p env ip) w (\<lambda>r n s.
     s = state_file w \<and> (\<forall>x\<in>set n. snd x = state_file w \<and> \<not> is_provider_call (fst x)))"
proof (induction p arbitrary: w)
  case 0
  then show ?case by (simp add: finishes_def)
next
  case (Suc p)
  show ?case
    unfolding wait_for_ssh_loop.simps ssh_run_def emit_forms
    apply (rule fin_bnd_run, simp add: SSH_OPTS_def)
    apply (rule fin_if)
    apply (rule fin_emit)
    apply (simp add: SSH_OPTS_def)
    apply (rule fin_andthen_emit)
    apply (rule fin_andthen_emit)
    apply (rule fin_weaken [OF Suc.IH])
    apply (simp add: SSH_OPTS_def ball_Un)
    done
qed

lemma remove_from_known_hosts_logged:
  assumes "remove_from_known_hosts env ip w = (Returned (), w')"
  shows "\<exists>n. trace w' = trace w @ n \<and> state_file w' = state_file w
     \<and> (\<forall>x\<in>set n. snd x = state_file w \<and> \<not> is_remote_call (fst x))
     \<and> (Exists KNOWN_HOSTS (fs_exists env (trace w) KNOWN_HOSTS), state_file w) \<in> set n
     \<and> (fs_exists env (trace w) KNOWN_HOSTS
          \<longrightarrow> 0 < polls [S ''ssh-keygen'', S ''-R'', V ip] n)"
  using assms
  by (auto simp: remove_from_known_hosts_def path_exists_def seq_defs io_defs
           split: if_splits)

lemma start_writes_record:
  assumes nr: "state_file w = None"
    and c: "c = respond env (trace (print [Lit ''Creating '', Lit INSTANCE_TYPE, Lit '' instance...''] w)) cmd_create"
    and rc: "rc c = 0" and data: "out_json c = Some data" and iid: "subscript data ''id'' = Inr iid"
    and r2: "wait_for_running patience env iid
               (print [Lit ''Instance ID: '', Val iid]
                 (emit (Run cmd_create True c)
                   (print [Lit ''Creating '', Lit INSTANCE_TYPE, Lit '' instance...''] w)))
             = (Returned (), w2)"
    and r3: "wait_for_ip patience env iid w2 = (Returned ip, w3)"
    and r4: "remove_from_known_hosts env ip w3 = (Returned (), w4)"
  shows "\<exists>pre. trace w4 = trace w @ pre
     \<and> (\<forall>x\<in>set pre. snd x = None \<and> \<not> is_remote_call (fst x))
     \<and> (Exists KNOWN_HOSTS (fs_exists env (trace w3) KNOWN_HOSTS), None) \<in> set pre
     \<and> (fs_exists env (trace w3) KNOWN_HOSTS
          \<longrightarrow> 0 < polls [S ''ssh-keygen'', S ''-R'', V ip] pre)
     \<and> finishes (start patience env) w (\<lambda>r new s.
          s = Some (JDict [(''id'', iid), (''ip'', ip)])
          \<and> (\<exists>post. new = pre @ (PrintNoEnd [Lit ''Waiting for SSH''],
                                     Some (JDict [(''id'', iid), (''ip'', ip)])) # post
               \<and> (\<forall>x\<in>set post. snd x = Some (JDict [(''id'', iid), (''ip'', ip)])
                                \<and> \<not> is_provider_call (fst x))))"
proof -
  define w1 where "w1 = print [Lit ''Instance ID: '', Val iid]
                 (emit (Run cmd_create True c)
                   (print [Lit ''Creating '', Lit INSTANCE_TYPE, Lit '' instance...''] w))"
  have s1: "state_file w1 = None"
    by (simp add: w1_def print_def nr)
  have t1: "trace w1 = trace w @ [(Print [Lit ''Creating '', Lit INSTANCE_TYPE, Lit '' instance...''], None),
                                  (Run cmd_create True c, None),
                                  (Print [Lit ''Instance ID: '', Val iid], None)]"
    by (simp add: w1_def print_def nr)
  from finishes_at [OF wait_for_running_unsaved r2 [folded w1_def]] s1
  obtain n2 where n2: "trace w2 = trace w1 @ n2" "state_file w2 = None"
      "\<forall>x\<in>set n2. snd x = None \<and> \<not> is_remote_call (fst x)"
    by auto
  from finishes_at [OF wait_for_ip_unsaved r3] n2(2)
  obtain n3 where n3: "trace w3 = trace w2 @ n3" "state_file w3 = None"
      "\<forall>x\<in>set n3. snd x = None \<and> \<not> is_remote_call (fst x)"
    by auto
  from remove_from_known_hosts_logged [OF r4] n3(2)
  obtain n4 where n4: "trace w4 = trace w3 @ n4" "state_file w4 = None"
      "\<forall>x\<in>set n4. snd x = None \<and> \<not> is_remote_call (fst x)"
      "(Exists KNOWN_HOSTS (fs_exists env (trace w3) KNOWN_HOSTS), None) \<in> set n4"
      "fs_exists env (trace w3) KNOWN_HOSTS
         \<longrightarrow> 0 < polls [S ''ssh-keygen'', S ''-R'', V ip] n4"
    by auto
  define pre0 where "pre0 = [(Print [Lit ''Creating '', Lit INSTANCE_TYPE, Lit '' instance...''], None),
                                  (Run cmd_create True c, None),
                                  (Print [Lit ''Instance ID: '', Val iid], None)] @ n2 @ n3 @ n4"
  have tw4: "trace w4 = trace w @ pre0"
    using t1 n2(1) n3(1) n4(1) by (simp add: pre0_def)
  have pre: "\<forall>x\<in>set pre0. snd x = None \<and> \<not> is_remote_call (fst x)"
    using n2(3) n3(3) n4(3) by (simp add: pre0_def cmd_create_def ball_Un)
  have kh: "(Exists KNOWN_HOSTS (fs_exists env (trace w3) KNOWN_HOSTS), None) \<in> set pre0"
    using n4(4) by (simp add: pre0_def)
  have kg: "fs_exists env (trace w3) KNOWN_HOSTS
         \<longrightarrow> 0 < polls [S ''ssh-keygen'', S ''-R'', V ip] pre0"
    using n4(5) by (simp add: pre0_def)
  have fin: "finishes (start patience env) w (\<lambda>r new s.
          s = Some (JDict [(''id'', iid), (''ip'', ip)])
          \<and> (\<exists>post. new = pre0 @ (PrintNoEnd [Lit ''Waiting for SSH''],
                                      Some (JDict [(''id'', iid), (''ip'', ip)])) # post
               \<and> (\<forall>x\<in>set post. snd x = Some (JDict [(''id'', iid), (''ip'', ip)])
                                \<and> \<not> is_provider_call (fst x))))"
    unfolding start_def wait_for_ssh_def scw_def ssh_run_def emit_forms
    apply (rule fin_bnd_load)
    apply (simp add: nr pure_simps split del: if_split)
    apply (rule fin_andthen_emit)
    apply (rule fin_bnd_run_at [where r = c], simp)
     apply (insert c, simp add: cmd_create_def print_def)[1]
    apply (simp add: rc data iid json_loads_def pure_simps split del: if_split)
    apply (rule fin_andthen_emit)
    apply (rule fin_andthen_at [where w' = w2 and n = n2])
      apply (insert r2, simp add: print_def cmd_create_def)[1]
     apply (insert n2(1) t1, simp add: print_def cmd_create_def nr)[1]
    apply (rule fin_bnd_at [where w' = w3 and n = n3 and x = ip], rule r3, rule n3(1))
    apply (rule fin_andthen_at [where w' = w4 and n = n4], rule r4, rule n4(1))
    apply (rule fin_andthen_act, simp)
    apply (simp only: andthen_assoc)
    apply (rule fin_andthen_emit)
    apply (rule fin_andthen [OF wait_for_ssh_loop_saved])
      apply ((rule fin_steps fin_andthen [OF upload_work_dir_saved]
                   fin_weaken [OF start_ssh_tunnel_saved]
              | (rule fin_bnd_run, simp add: SSH_OPTS_def)
              | (rule fin_andthen_act, simp)
              | simp add: pure_simps Let_def andthen_if pre0_def cmd_create_def ball_Un nr
                  split del: if_split)+)
    done
  show ?thesis
    using tw4 pre kh kg fin by (intro exI [of _ pre0] conjI)
qed

text \<open>
  C1, as stated, fails: the record is saved only after the address is known. In the
  end-to-end scenario, interrupted during the first wait, the instance has been created,
  its power state has been queried with no record on disk, and no record is left.
\<close>

theorem start_polls_without_record_counterexample:
  "fst (start 1 env_e2e w_fresh) = Interrupted
   \<and> polls cmd_create (trace (snd (start 1 env_e2e w_fresh))) = 1
   \<and> (Run (cmd_get ''i-1'') True (json_reply (JDict [(''state'', JStr ''pending'')])), None)
       \<in> set (trace (snd (start 1 env_e2e w_fresh)))
   \<and> state_file (snd (start 1 env_e2e w_fresh)) = None"
  by (simp add: start_def load_state_def run_defs env_e2e_def script_e2e_def w_fresh_def
      INSTANCE_TYPE_def IMAGE_def)

text \<open>
  C1, amended. From a state with no record, whatever the environment answers and whenever
  the run is cut off: every provider call of \<^verbatim>\<open>start\<close> (create, power-state polling,
  address polling) happens while no record exists, and every command sent to the instance
  (shell-reachability polling, sync, bootstrap, tunnel) happens while the state file holds
  a Lifecycle Record. Moreover, if the create call succeeds with reply \<open>c\<close> whose JSON
  has the identifier \<open>iid\<close>, power-state polling returns, address polling returns the
  address \<open>ip\<close>, and the host-identity invalidation returns, leaving the world
  \<open>w4\<close>, then the log of \<^verbatim>\<open>start\<close> is the log up to \<open>w4\<close>, whose events all happen
  with no record and none of which reaches the instance, and which contains the
  known-hosts test (and the \<^verbatim>\<open>ssh-keygen\<close> run when the file exists); then the first
  line of the shell-reachability wait, logged with the record
  \<^verbatim>\<open>{"id": iid, "ip": ip}\<close> on disk; then events that all happen with exactly this
  record on disk and none of which is a provider call. The record is still there,
  unchanged, when \<^verbatim>\<open>start\<close> ends, however it ends.
\<close>

theorem start_saves_record_before_contact:
  assumes "state_file w = None"
  shows "(\<exists>new. trace (snd (start patience env w)) = trace w @ new
            \<and> (\<forall>x\<in>set new. (is_provider_call (fst x) \<longrightarrow> snd x = None)
                            \<and> (is_remote_call (fst x) \<longrightarrow> is_record (snd x))))
     \<and> (c = respond env (trace (print [Lit ''Creating '', Lit INSTANCE_TYPE,
                                        Lit '' instance...''] w)) cmd_create
        \<and> rc c = 0 \<and> out_json c = Some data \<and> subscript data ''id'' = Inr iid
        \<and> wait_for_running patience env iid
             (print [Lit ''Instance ID: '', Val iid]
               (emit (Run cmd_create True c)
                 (print [Lit ''Creating '', Lit INSTANCE_TYPE, Lit '' instance...''] w)))
           = (Returned (), w2)
        \<and> wait_for_ip patience env iid w2 = (Returned ip, w3)
        \<and> remove_from_known_hosts env ip w3 = (Returned (), w4)
        \<longrightarrow> (\<exists>pre post.
               trace w4 = trace w @ pre
             \<and> trace (snd (start patience env w))
                 = trace w @ pre @ (PrintNoEnd [Lit ''Waiting for SSH''],
                                    Some (JDict [(''id'', iid), (''ip'', ip)])) # post
             \<and> (\<forall>x\<in>set pre. snd x = None \<and> \<not> is_remote_call (fst x))
             \<and> (Exists KNOWN_HOSTS (fs_exists env (trace w3) KNOWN_HOSTS), None) \<in> set pre
             \<and> (fs_exists env (trace w3) KNOWN_HOSTS
                  \<longrightarrow> 0 < polls [S ''ssh-keygen'', S ''-R'', V ip] pre)
             \<and> (\<forall>x\<in>set post. snd x = Some (JDict [(''id'', iid), (''ip'', ip)])
                              \<and> \<not> is_provider_call (fst x))
             \<and> state_file (snd (start patience env w))
                 = Some (JDict [(''id'', iid), (''ip'', ip)])))"
proof (intro conjI impI)
  show "\<exists>new. trace (snd (start patience env w)) = trace w @ new
            \<and> (\<forall>x\<in>set new. (is_provider_call (fst x) \<longrightarrow> snd x = None)
                            \<and> (is_remote_call (fst x) \<longrightarrow> is_record (snd x)))"
    using start_guarded [OF assms, of patience env]
    unfolding finishes_def guarded_def by blast
next
  assume h: "c = respond env (trace (print [Lit ''Creating '', Lit INSTANCE_TYPE,
                                        Lit '' instance...''] w)) cmd_create
        \<and> rc c = 0 \<and> out_json c = Some data \<and> subscript data ''id'' = Inr iid
        \<and> wait_for_running patience env iid
             (print [Lit ''Instance ID: '', Val iid]
               (emit (Run cmd_create True c)
                 (print [Lit ''Creating '', Lit INSTANCE_TYPE, Lit '' instance...''] w)))
           = (Returned (), w2)
        \<and> wait_for_ip patience env iid w2 = (Returned ip, w3)
        \<and> remove_from_known_hosts env ip w3 = (Returned (), w4)"
  from h have c: "c = respond env (trace (print [Lit ''Creating '', Lit INSTANCE_TYPE,
                                        Lit '' instance...''] w)) cmd_create"
    and rc: "rc c = 0" and data: "out_json c = Some data"
    and iid: "subscript data ''id'' = Inr iid"
    and r2: "wait_for_running patience env iid
             (print [Lit ''Instance ID: '', Val iid]
               (emit (Run cmd_create True c)
                 (print [Lit ''Creating '', Lit INSTANCE_TYPE, Lit '' instance...''] w)))
           = (Returned (), w2)"
    and r3: "wait_for_ip patience env iid w2 = (Returned ip, w3)"
    and r4: "remove_from_known_hosts env ip w3 = (Returned (), w4)"
    by blast+
  from start_writes_record [OF assms c rc data iid r2 r3 r4]
  obtain pre where pre: "trace w4 = trace w @ pre"
      "\<forall>x\<in>set pre. snd x = None \<and> \<not> is_remote_call (fst x)"
      "(Exists KNOWN_HOSTS (fs_exists env (trace w3) KNOWN_HOSTS), None) \<in> set pre"
      "fs_exists env (trace w3) KNOWN_HOSTS
         \<longrightarrow> 0 < polls [S ''ssh-keygen'', S ''-R'', V ip] pre"
    and fin: "finishes (start patience env) w (\<lambda>r new s.
          s = Some (JDict [(''id'', iid), (''ip'', ip)])
          \<and> (\<exists>post. new = pre @ (PrintNoEnd [Lit ''Waiting for SSH''],
                                     Some (JDict [(''id'', iid), (''ip'', ip)])) # post
               \<and> (\<forall>x\<in>set post. snd x = Some (JDict [(''id'', iid), (''ip'', ip)])
                                \<and> \<not> is_provider_call (fst x))))"
    by blast
  from fin obtain post where post:
      "trace (snd (start patience env w))
         = trace w @ pre @ (PrintNoEnd [Lit ''Waiting for SSH''],
                            Some (JDict [(''id'', iid), (''ip'', ip)])) # post"
      "\<forall>x\<in>set post. snd x = Some (JDict [(''id'', iid), (''ip'', ip)])
                    \<and> \<not> is_provider_call (fst x)"
      "state_file (snd (start patience env w)) = Some (JDict [(''id'', iid), (''ip'', ip)])"
    unfolding finishes_def by blast
  show "\<exists>pre post.
               trace w4 = trace w @ pre
             \<and> trace (snd (start patience env w))
                 = trace w @ pre @ (PrintNoEnd [Lit ''Waiting for SSH''],
                                    Some (JDict [(''id'', iid), (''ip'', ip)])) # post
             \<and> (\<forall>x\<in>set pre. snd x = None \<and> \<not> is_remote_call (fst x))
             \<and> (Exists KNOWN_HOSTS (fs_exists env (trace w3) KNOWN_HOSTS), None) \<in> set pre
             \<and> (fs_exists env (trace w3) KNOWN_HOSTS
                  \<longrightarrow> 0 < polls [S ''ssh-keygen'', S ''-R'', V ip] pre)
             \<and> (\<forall>x\<in>set post. snd x = Some (JDict [(''id'', iid), (''ip'', ip)])
                              \<and> \<not> is_provider_call (fst x))
             \<and> state_file (snd (start patience env w))
                 = Some (JDict [(''id'', iid), (''ip'', ip)])"
    using pre post by (intro exI [of _ pre] exI [of _ post] conjI)
qed

theorem start_saves_record_before_contact_witness:
  "\<exists>pre post.
      trace (snd (start 1 env_prompt w_fresh))
        = pre @ (PrintNoEnd [Lit ''Waiting for SSH''],
                 Some (JDict [(''id'', JStr ''i-1''), (''ip'', JStr ''10.0.0.5'')])) # post
    \<and> (\<forall>x\<in>set pre. snd x = None \<and> \<not> is_remote_call (fst x))
    \<and> 0 < polls [S ''ssh-keygen'', S ''-R'', V (JStr ''10.0.0.5'')] pre
    \<and> (\<forall>x\<in>set post. snd x = Some (JDict [(''id'', JStr ''i-1''), (''ip'', JStr ''10.0.0.5'')])
                     \<and> \<not> is_provider_call (fst x))
    \<and> state_file (snd (start 1 env_prompt w_fresh))
        = Some (JDict [(''id'', JStr ''i-1''), (''ip'', JStr ''10.0.0.5'')])"
proof -
  define c where "c = json_reply (JDict [(''id'', JStr ''i-1'')])"
  define w1 where "w1 = print [Lit ''Instance ID: '', Val (JStr ''i-1'')]
               (emit (Run cmd_create True c)
                 (print [Lit ''Creating '', Lit INSTANCE_TYPE, Lit '' instance...''] w_fresh))"
  define w2 where "w2 = snd (wait_for_running 1 env_prompt (JStr ''i-1'') w1)"
  define w3 where "w3 = snd (wait_for_ip 1 env_prompt (JStr ''i-1'') w2)"
  define w4 where "w4 = snd (remove_from_known_hosts env_prompt (JStr ''10.0.0.5'') w3)"
  have h0: "state_file w_fresh = None"
    by (simp add: w_fresh_def)
  have h1: "c = respond env_prompt (trace (print [Lit ''Creating '', Lit INSTANCE_TYPE,
                                        Lit '' instance...''] w_fresh)) cmd_create"
    by (simp add: c_def env_prompt_def script_prompt_def scripted_def)
  have h2: "rc c = 0" "out_json c = Some (JDict [(''id'', JStr ''i-1'')])"
      "subscript (JDict [(''id'', JStr ''i-1'')]) ''id'' = Inr (JStr ''i-1'')"
    by (simp_all add: c_def json_reply_def)
  have h3: "wait_for_running 1 env_prompt (JStr ''i-1'') w1 = (Returned (), w2)"
    unfolding w2_def
    by (simp add: w1_def c_def w_fresh_def run_defs env_prompt_def script_prompt_def
        INSTANCE_TYPE_def IMAGE_def)
  have h4: "wait_for_ip 1 env_prompt (JStr ''i-1'') w2 = (Returned (JStr ''10.0.0.5''), w3)"
    unfolding w3_def w2_def
    by (simp add: w1_def c_def w_fresh_def run_defs env_prompt_def script_prompt_def
        INSTANCE_TYPE_def IMAGE_def)
  have h5: "remove_from_known_hosts env_prompt (JStr ''10.0.0.5'') w3 = (Returned (), w4)"
    unfolding w4_def
    by (simp add: remove_from_known_hosts_def seq_defs io_defs env_prompt_def scripted_def)
  have ex: "fs_exists env_prompt (trace w3) KNOWN_HOSTS"
    by (simp add: env_prompt_def scripted_def)
  from start_saves_record_before_contact [OF h0, of 1 env_prompt c
        "JDict [(''id'', JStr ''i-1'')]" "JStr ''i-1''" w2 "JStr ''10.0.0.5''" w3 w4]
    h1 h2 h3 [unfolded w1_def] h4 h5 ex
  obtain pre post where
      "trace (snd (start 1 env_prompt w_fresh))
        = trace w_fresh @ pre @ (PrintNoEnd [Lit ''Waiting for SSH''],
                 Some (JDict [(''id'', JStr ''i-1''), (''ip'', JStr ''10.0.0.5'')])) # post"
      "\<forall>x\<in>set pre. snd x = None \<and> \<not> is_remote_call (fst x)"
      "0 < polls [S ''ssh-keygen'', S ''-R'', V (JStr ''10.0.0.5'')] pre"
      "\<forall>x\<in>set post. snd x = Some (JDict [(''id'', JStr ''i-1''), (''ip'', JStr ''10.0.0.5'')])
                     \<and> \<not> is_provider_call (fst x)"
      "state_file (snd (start 1 env_prompt w_fresh))
        = Some (JDict [(''id'', JStr ''i-1''), (''ip'', JStr ''10.0.0.5'')])"
    by blast
  then show ?thesis
    by (intro exI [of _ pre] exI [of _ post] conjI) (simp_all add: w_fresh_def)
qed

end
